theory Spec2Isabelle
  imports Main "HOL-Library.Product_Lexorder"
begin

section \<open>The store\<close>

text \<open>
  \<^verbatim>\<open>database.py\<close> talks to an SQLite database with three tables, \<^verbatim>\<open>DOCTORES\<close>,
  \<^verbatim>\<open>CAMAS\<close> and \<^verbatim>\<open>VISITAS_EMERGENCIA\<close>. A table is a list of rows in the
  store's own order, so that the number of rows an \<^verbatim>\<open>UPDATE\<close> touches and the
  first row of an ordered \<^verbatim>\<open>SELECT\<close> are what SQLite reports. Every call runs in a
  transaction opened with \<^verbatim>\<open>BEGIN IMMEDIATE\<close>, which holds the write lock of the
  database until it ends, so a call sees the store as a value and returns the next one.
\<close>

text \<open>
  Modelled from the spec: the schema (the \<^verbatim>\<open>CREATE TABLE\<close> statements) is not part
  of the sources. The columns are the ones the statements of \<^verbatim>\<open>database.py\<close> name;
  their types follow the data model of the specification: identities are integers,
  \<open>active\<close> and \<open>available\<close> are flags (\<^verbatim>\<open>1\<close> is \<open>True\<close>, \<^verbatim>\<open>0\<close> is \<open>False\<close>), a bed
  is \<^verbatim>\<open>LIBRE\<close> or \<^verbatim>\<open>OCUPADA\<close>, a visit is \<^verbatim>\<open>ABIERTA\<close> or \<^verbatim>\<open>CERRADA\<close>, and
  \<^verbatim>\<open>fecha_hora_cierre\<close> is null until the visit is closed. The columns of a visit
  that share a name with a column of another table carry the prefix \<open>v_\<close>. What the
  schema may add (keys, foreign keys, checks) is not modelled: where a property needs
  identities or folios to be unique, it says so.
\<close>

datatype estado_cama = LIBRE | OCUPADA

datatype estado_visita = ABIERTA | CERRADA

record doctor =
  id_doctor :: int
  activo :: bool
  disponible :: bool

record cama =
  id_cama :: int
  id_sala :: int
  estado :: estado_cama

record visita =
  folio :: string
  id_paciente :: int
  v_id_doctor :: int
  id_trabajador :: int
  v_id_sala :: int
  v_id_cama :: int
  origen_solicitud :: string
  prioridad :: int
  motivo :: string
  fecha_hora_inicio :: string
  fecha_hora_cierre :: "string option"
  v_estado :: estado_visita

record db =
  doctores :: "doctor list"
  camas :: "cama list"
  visitas :: "visita list"

text \<open>
  The argument of \<^verbatim>\<open>crear_visita_tx\<close> is a Python dictionary. A key that is absent is
  \<open>None\<close>; the values have the types of the columns they are stored in.
\<close>

record payload =
  p_id_paciente :: "int option"
  p_id_trabajador :: "int option"
  p_origen_solicitud :: "string option"
  p_prioridad :: "int option"
  p_motivo :: "string option"

text \<open>The dictionary \<^verbatim>\<open>crear_visita_tx\<close> returns.\<close>

record asignacion =
  r_folio :: string
  r_id_doctor :: int
  r_id_cama :: int
  r_id_sala :: int

text \<open>
  The exceptions of the two operations: the three \<^verbatim>\<open>RuntimeError\<close>s of
  \<^verbatim>\<open>crear_visita_tx\<close>, the one of \<^verbatim>\<open>cerrar_visita_tx\<close>, the \<^verbatim>\<open>KeyError\<close> of
  \<^verbatim>\<open>payload['...']\<close> on an absent key, with the key, and the \<^verbatim>\<open>OverflowError\<close> of
  \<^verbatim>\<open>sqlite3\<close> for a Python integer that does not fit an SQLite \<^verbatim>\<open>INTEGER\<close>.
\<close>

datatype error =
    NoHayDoctorDisponible
  | NoHayCamasLibres
  | RecursosTomados
  | VisitaNoEncontrada
  | KeyError string
  | OverflowError

section \<open>SQL statements\<close>

text \<open>
  An SQLite \<^verbatim>\<open>INTEGER\<close> has 64 bits: \<^verbatim>\<open>sqlite3\<close> binds a Python integer as a
  parameter only when it lies between \<open>-2^63\<close> and \<open>2^63 - 1\<close>, and raises
  \<^verbatim>\<open>OverflowError\<close> otherwise.
\<close>

definition sqlite_integer :: "int \<Rightarrow> bool" where
  "sqlite_integer n \<longleftrightarrow> - 9223372036854775808 \<le> n \<and> n \<le> 9223372036854775807"

text \<open>
  \<^verbatim>\<open>UPDATE t SET ... WHERE cond\<close>: every row that satisfies the condition is rewritten,
  and \<^verbatim>\<open>cur.rowcount\<close> is the number of such rows.
\<close>

definition update_where :: "('r \<Rightarrow> bool) \<Rightarrow> ('r \<Rightarrow> 'r) \<Rightarrow> 'r list \<Rightarrow> 'r list" where
  "update_where cond set_cols rows = map (\<lambda>r. if cond r then set_cols r else r) rows"

definition rowcount :: "('r \<Rightarrow> bool) \<Rightarrow> 'r list \<Rightarrow> nat" where
  "rowcount cond rows = length (filter cond rows)"

text \<open>
  \<^verbatim>\<open>SELECT ... ORDER BY key LIMIT 1\<close> followed by \<^verbatim>\<open>fetchone()\<close>: the first row of the
  rows sorted by the key (rows with equal keys stay in the store's order), or
  \<open>None\<close> when no row is selected.
\<close>

definition fetchone_order_by :: "('r \<Rightarrow> 'k::linorder) \<Rightarrow> 'r list \<Rightarrow> 'r option" where
  "fetchone_order_by key rows = (case sort_key key rows of [] \<Rightarrow> None | r # _ \<Rightarrow> Some r)"

text \<open>
  The scalar subquery \<^verbatim>\<open>(SELECT col FROM VISITAS_EMERGENCIA WHERE folio=?)\<close>: the
  column of the first row with that folio, or null.
\<close>

definition subquery_folio :: "(visita \<Rightarrow> 'a) \<Rightarrow> string \<Rightarrow> db \<Rightarrow> 'a option" where
  "subquery_folio col f c =
     (case filter (\<lambda>v. folio v = f) (visitas c) of [] \<Rightarrow> None | v # _ \<Rightarrow> Some (col v))"

section \<open>Transactions\<close>

text \<open>
  \<^verbatim>\<open>tx()\<close>: the body runs on the connection after \<^verbatim>\<open>BEGIN IMMEDIATE\<close>. A body that
  returns is committed; a body that raises is rolled back (the store is the one the
  transaction started from) and the exception is raised again. The body gives its
  result or its exception together with the store as it was at that moment.
\<close>

definition tx :: "(db \<Rightarrow> (error + 'a) \<times> db) \<Rightarrow> db \<Rightarrow> (error + 'a) \<times> db" where
  "tx body c =
     (case body c of
        (Inl e, _) \<Rightarrow> (Inl e, c)
      | (Inr r, c') \<Rightarrow> (Inr r, c'))"

section \<open>Selecting and claiming resources\<close>

text \<open>The \<^verbatim>\<open>ORDER BY\<close> key of the doctor query: the open visits of a doctor.\<close>

definition visitas_abiertas_de :: "db \<Rightarrow> int \<Rightarrow> nat" where
  "visitas_abiertas_de c d =
     rowcount (\<lambda>v. v_id_doctor v = d \<and> v_estado v = ABIERTA) (visitas c)"

definition seleccionar_doctor_disponible :: "db \<Rightarrow> int option" where
  "seleccionar_doctor_disponible c =
     (case fetchone_order_by (\<lambda>d. visitas_abiertas_de c (id_doctor d))
             (filter (\<lambda>d. activo d \<and> disponible d) (doctores c)) of
        None \<Rightarrow> None
      | Some r \<Rightarrow> Some (id_doctor r))"

text \<open>
  \<^verbatim>\<open>_seleccionar_cama_libre\<close> returns \<^verbatim>\<open>(id_cama, id_sala)\<close>, or \<^verbatim>\<open>(None, None)\<close>,
  which is \<open>None\<close> here.
\<close>

definition seleccionar_cama_libre :: "db \<Rightarrow> (int \<times> int) option" where
  "seleccionar_cama_libre c =
     (case fetchone_order_by (\<lambda>b. (id_sala b, id_cama b))
             (filter (\<lambda>b. estado b = LIBRE) (camas c)) of
        None \<Rightarrow> None
      | Some r \<Rightarrow> Some (id_cama r, id_sala r))"

definition ocupar_recursos :: "int \<Rightarrow> int \<Rightarrow> int \<Rightarrow> db \<Rightarrow> bool \<times> db" where
  "ocupar_recursos d b s c =
     (let cond_d = (\<lambda>r. id_doctor r = d \<and> disponible r);
          c1 = c\<lparr>doctores := update_where cond_d (\<lambda>r. r\<lparr>disponible := False\<rparr>) (doctores c)\<rparr>
      in if rowcount cond_d (doctores c) \<noteq> 1 then (False, c1)
         else
           let cond_b = (\<lambda>r. id_cama r = b \<and> id_sala r = s \<and> estado r = LIBRE);
               c2 = c1\<lparr>camas := update_where cond_b (\<lambda>r. r\<lparr>estado := OCUPADA\<rparr>) (camas c1)\<rparr>
           in if rowcount cond_b (camas c1) \<noteq> 1
              then (False,
                    c2\<lparr>doctores := update_where (\<lambda>r. id_doctor r = d)
                                     (\<lambda>r. r\<lparr>disponible := True\<rparr>) (doctores c2)\<rparr>)
              else (True, c2))"

section \<open>Opening and closing a visit\<close>

text \<open>
  The \<^verbatim>\<open>INSERT\<close> and the row it adds. The tuple of parameters is built first, from
  left to right, so the first absent key among \<^verbatim>\<open>id_paciente\<close>, \<^verbatim>\<open>id_trabajador\<close> and
  \<^verbatim>\<open>origen_solicitud\<close> raises the \<^verbatim>\<open>KeyError\<close>; \<^verbatim>\<open>prioridad\<close> defaults to 3 and
  \<^verbatim>\<open>motivo\<close> to the empty string, and \<open>ahora\<close> is
  \<^verbatim>\<open>datetime.now().isoformat(timespec='seconds')\<close>. Then \<^verbatim>\<open>conn.execute\<close> binds the
  parameters, and an integer of the payload that is not an SQLite integer raises the
  \<^verbatim>\<open>OverflowError\<close>; the identities of the doctor, the room and the bed were read from
  the store and are SQLite integers already. The payload's values have the types of
  their columns (see above), so \<^verbatim>\<open>int(...)\<close> is the identity on \<^verbatim>\<open>prioridad\<close>.

  The statement inserts a null folio, and the query after it reads the folio of the new
  row back. Modelled from the spec: the folio is assigned by the store on creation, by
  a part of the schema that is not in the sources; \<open>fol\<close> is the folio the store assigns
  to this row.
\<close>

definition fila_visita :: "string \<Rightarrow> string \<Rightarrow> payload \<Rightarrow> int \<Rightarrow> int \<Rightarrow> int \<Rightarrow> error + visita" where
  "fila_visita fol ahora p d b s =
     (case p_id_paciente p of
        None \<Rightarrow> Inl (KeyError ''id_paciente'')
      | Some pac \<Rightarrow>
     (case p_id_trabajador p of
        None \<Rightarrow> Inl (KeyError ''id_trabajador'')
      | Some trab \<Rightarrow>
     (case p_origen_solicitud p of
        None \<Rightarrow> Inl (KeyError ''origen_solicitud'')
      | Some orig \<Rightarrow>
          let prio = (case p_prioridad p of None \<Rightarrow> 3 | Some n \<Rightarrow> n)
          in if \<not> (sqlite_integer pac \<and> sqlite_integer trab \<and> sqlite_integer prio)
             then Inl OverflowError
             else
               Inr \<lparr>folio = fol, id_paciente = pac, v_id_doctor = d, id_trabajador = trab,
                    v_id_sala = s, v_id_cama = b, origen_solicitud = orig,
                    prioridad = prio,
                    motivo = (case p_motivo p of None \<Rightarrow> [] | Some m \<Rightarrow> m),
                    fecha_hora_inicio = ahora, fecha_hora_cierre = None,
                    v_estado = ABIERTA\<rparr>)))"

text \<open>
  The body of \<^verbatim>\<open>crear_visita_tx\<close> inside \<^verbatim>\<open>with tx() as conn\<close>. The tests
  \<^verbatim>\<open>if not id_doctor\<close> and \<^verbatim>\<open>if not id_cama\<close> are Python truth tests: they hold for
  \<^verbatim>\<open>None\<close> and for the integer 0.
\<close>

definition crear_visita_body :: "string \<Rightarrow> string \<Rightarrow> payload \<Rightarrow> db \<Rightarrow> (error + asignacion) \<times> db" where
  "crear_visita_body fol ahora p c =
     (case seleccionar_doctor_disponible c of
        None \<Rightarrow> (Inl NoHayDoctorDisponible, c)
      | Some d \<Rightarrow>
          if d = 0 then (Inl NoHayDoctorDisponible, c)
          else
            (case seleccionar_cama_libre c of
               None \<Rightarrow> (Inl NoHayCamasLibres, c)
             | Some (b, s) \<Rightarrow>
                 if b = 0 then (Inl NoHayCamasLibres, c)
                 else
                   (case ocupar_recursos d b s c of
                      (False, c') \<Rightarrow> (Inl RecursosTomados, c')
                    | (True, c') \<Rightarrow>
                        (case fila_visita fol ahora p d b s of
                           Inl e \<Rightarrow> (Inl e, c')
                         | Inr v \<Rightarrow>
                             (Inr \<lparr>r_folio = folio v, r_id_doctor = d,
                                   r_id_cama = b, r_id_sala = s\<rparr>,
                              c'\<lparr>visitas := visitas c' @ [v]\<rparr>)))))"

definition crear_visita_tx :: "string \<Rightarrow> string \<Rightarrow> payload \<Rightarrow> db \<Rightarrow> (error + asignacion) \<times> db" where
  "crear_visita_tx fol ahora p = tx (crear_visita_body fol ahora p)"

definition cerrar_visita_body :: "string \<Rightarrow> string \<Rightarrow> db \<Rightarrow> (error + unit) \<times> db" where
  "cerrar_visita_body ahora f c =
     (let cond_v = (\<lambda>v. folio v = f \<and> v_estado v = ABIERTA);
          c1 = c\<lparr>visitas := update_where cond_v
                   (\<lambda>v. v\<lparr>v_estado := CERRADA, fecha_hora_cierre := Some ahora\<rparr>) (visitas c)\<rparr>
      in if rowcount cond_v (visitas c) \<noteq> 1 then (Inl VisitaNoEncontrada, c1)
         else
           let d = subquery_folio v_id_doctor f c1;
               c2 = c1\<lparr>doctores := update_where (\<lambda>r. Some (id_doctor r) = d)
                                      (\<lambda>r. r\<lparr>disponible := True\<rparr>) (doctores c1)\<rparr>;
               b = subquery_folio v_id_cama f c2;
               s = subquery_folio v_id_sala f c2;
               c3 = c2\<lparr>camas := update_where (\<lambda>r. Some (id_cama r) = b \<and> Some (id_sala r) = s)
                                   (\<lambda>r. r\<lparr>estado := LIBRE\<rparr>) (camas c2)\<rparr>
           in (Inr (), c3))"

definition cerrar_visita_tx :: "string \<Rightarrow> string \<Rightarrow> db \<Rightarrow> (error + unit) \<times> db" where
  "cerrar_visita_tx ahora f = tx (cerrar_visita_body ahora f)"

section \<open>Conservation\<close>

text \<open>The open visits, in the order of the table.\<close>

definition abiertas :: "db \<Rightarrow> visita list" where
  "abiertas c = filter (\<lambda>v. v_estado v = ABIERTA) (visitas c)"

text \<open>
  The conservation property of the specification: the number of unavailable doctors
  is the number of distinct doctors of the open visits, and the number of occupied beds
  is the number of distinct beds (room and bed) of the open visits.
\<close>

definition conservacion :: "db \<Rightarrow> bool" where
  "conservacion c \<longleftrightarrow>
     rowcount (\<lambda>r. \<not> disponible r) (doctores c) =
       length (remdups (map v_id_doctor (abiertas c))) \<and>
     rowcount (\<lambda>x. estado x = OCUPADA) (camas c) =
       length (remdups (map (\<lambda>v. (v_id_sala v, v_id_cama v)) (abiertas c)))"

text \<open>
  The state the two operations keep: the identities of the doctors, the room and bed
  pairs of the beds and the folios are unique; no two open visits share a doctor or a
  bed; the unavailable doctors are the doctors of the open visits, and the occupied
  beds are the beds of the open visits.
\<close>

definition coherente :: "db \<Rightarrow> bool" where
  "coherente c \<longleftrightarrow>
     distinct (map id_doctor (doctores c)) \<and>
     distinct (map (\<lambda>x. (id_sala x, id_cama x)) (camas c)) \<and>
     distinct (map folio (visitas c)) \<and>
     distinct (map v_id_doctor (abiertas c)) \<and>
     distinct (map (\<lambda>v. (v_id_sala v, v_id_cama v)) (abiertas c)) \<and>
     set (map id_doctor (filter (\<lambda>r. \<not> disponible r) (doctores c))) =
       set (map v_id_doctor (abiertas c)) \<and>
     set (map (\<lambda>x. (id_sala x, id_cama x)) (filter (\<lambda>x. estado x = OCUPADA) (camas c))) =
       set (map (\<lambda>v. (v_id_sala v, v_id_cama v)) (abiertas c))"

section \<open>Example stores and payloads\<close>

definition c_demo :: db where
  "c_demo = \<lparr>doctores = [], camas = [],
     visitas = [\<lparr>folio = ''F1'', id_paciente = 1, v_id_doctor = 7, id_trabajador = 9,
        v_id_sala = 1, v_id_cama = 2, origen_solicitud = ''walk-in'', prioridad = 3,
        motivo = [], fecha_hora_inicio = ''t0'', fecha_hora_cierre = None,
        v_estado = ABIERTA\<rparr>]\<rparr>"

definition c_uno :: db where
  "c_uno = \<lparr>doctores = [\<lparr>id_doctor = 1, activo = True, disponible = True\<rparr>],
            camas = [\<lparr>id_cama = 1, id_sala = 1, estado = LIBRE\<rparr>],
            visitas = []\<rparr>"

definition c_carga :: db where
  "c_carga = \<lparr>doctores = [\<lparr>id_doctor = 1, activo = True, disponible = True\<rparr>,
                          \<lparr>id_doctor = 2, activo = True, disponible = True\<rparr>,
                          \<lparr>id_doctor = 3, activo = False, disponible = True\<rparr>],
              camas = [],
              visitas = [\<lparr>folio = ''F1'', id_paciente = 1, v_id_doctor = 1, id_trabajador = 9,
                 v_id_sala = 1, v_id_cama = 1, origen_solicitud = ''walk-in'', prioridad = 3,
                 motivo = [], fecha_hora_inicio = ''t0'', fecha_hora_cierre = None,
                 v_estado = ABIERTA\<rparr>]\<rparr>"

definition c_dup :: db where
  "c_dup = \<lparr>doctores = [\<lparr>id_doctor = 1, activo = True, disponible = True\<rparr>],
            camas = [\<lparr>id_cama = 1, id_sala = 1, estado = LIBRE\<rparr>,
                     \<lparr>id_cama = 1, id_sala = 1, estado = LIBRE\<rparr>],
            visitas = []\<rparr>"

definition p_ok :: payload where
  "p_ok = \<lparr>p_id_paciente = Some 1, p_id_trabajador = Some 9,
           p_origen_solicitud = Some ''walk-in'', p_prioridad = None, p_motivo = None\<rparr>"

definition v_f1 :: visita where
  "v_f1 = \<lparr>folio = ''F1'', id_paciente = 1, v_id_doctor = 1, id_trabajador = 9,
            v_id_sala = 1, v_id_cama = 1, origen_solicitud = ''walk-in'', prioridad = 3,
            motivo = [], fecha_hora_inicio = ''t0'', fecha_hora_cierre = None,
            v_estado = ABIERTA\<rparr>"

definition c_abierta :: db where
  "c_abierta = \<lparr>doctores = [\<lparr>id_doctor = 1, activo = True, disponible = False\<rparr>],
                camas = [\<lparr>id_cama = 1, id_sala = 1, estado = OCUPADA\<rparr>],
                visitas = [v_f1]\<rparr>"

definition c_vacia :: db where
  "c_vacia = \<lparr>doctores = [], camas = [], visitas = []\<rparr>"

definition p_sin_paciente :: payload where
  "p_sin_paciente = \<lparr>p_id_paciente = None, p_id_trabajador = Some 9,
           p_origen_solicitud = Some ''walk-in'', p_prioridad = None, p_motivo = None\<rparr>"

definition c_cero :: db where
  "c_cero = \<lparr>doctores = [\<lparr>id_doctor = 0, activo = True, disponible = True\<rparr>],
             camas = [\<lparr>id_cama = 1, id_sala = 1, estado = LIBRE\<rparr>],
             visitas = []\<rparr>"

definition c_cama_cero :: db where
  "c_cama_cero = \<lparr>doctores = [\<lparr>id_doctor = 1, activo = True, disponible = True\<rparr>],
                  camas = [\<lparr>id_cama = 0, id_sala = 1, estado = LIBRE\<rparr>],
                  visitas = []\<rparr>"

definition c_dos :: db where
  "c_dos = \<lparr>doctores = [\<lparr>id_doctor = 1, activo = True, disponible = False\<rparr>,
                        \<lparr>id_doctor = 2, activo = True, disponible = True\<rparr>],
            camas = [\<lparr>id_cama = 1, id_sala = 1, estado = OCUPADA\<rparr>,
                     \<lparr>id_cama = 2, id_sala = 1, estado = LIBRE\<rparr>],
            visitas = [v_f1]\<rparr>"

definition c_ce :: db where
  "c_ce = \<lparr>doctores = [\<lparr>id_doctor = 1, activo = True, disponible = True\<rparr>,
                       \<lparr>id_doctor = 2, activo = True, disponible = False\<rparr>],
           camas = [\<lparr>id_cama = 1, id_sala = 1, estado = LIBRE\<rparr>,
                    \<lparr>id_cama = 2, id_sala = 1, estado = OCUPADA\<rparr>],
           visitas = [v_f1]\<rparr>"

definition c_sin_cama :: db where
  "c_sin_cama = \<lparr>doctores = [\<lparr>id_doctor = 1, activo = True, disponible = True\<rparr>],
                 camas = [], visitas = []\<rparr>"

section \<open>Properties\<close>

subsection \<open>Rows, row counts and queries\<close>

lemma tx_cases: "tx body c = (case fst (body c) of Inl e \<Rightarrow> (Inl e, c) | Inr r \<Rightarrow> (Inr r, snd (body c)))"
  by (cases "body c") (auto simp add: tx_def split: sum.splits)

lemma rowcount_0_iff: "rowcount cond rows = 0 \<longleftrightarrow> \<not> (\<exists>r\<in>set rows. cond r)"
  by (auto simp: rowcount_def filter_empty_conv)

lemma rowcount_1_ex:
  assumes "rowcount P rows = 1"
  shows "\<exists>r\<in>set rows. P r"
proof (rule ccontr)
  assume "\<not> (\<exists>r\<in>set rows. P r)"
  then have "rowcount P rows = 0" by (simp add: rowcount_0_iff)
  with assms show False by simp
qed

lemma rowcount_update_where_0:
  assumes "\<And>r. cond r \<Longrightarrow> \<not> cond (upd r)"
  shows "rowcount cond (update_where cond upd rows) = 0"
  using assms by (simp add: rowcount_def update_where_def filter_empty_conv)

lemma rowcount_distinct_key:
  assumes "distinct (map k rows)" and "r \<in> set rows" and "P r"
  shows "rowcount (\<lambda>x. k x = k r \<and> P x) rows = 1"
  using assms
proof (induction rows)
  case Nil
  then show ?case by simp
next
  case (Cons a rows)
  show ?case
  proof (cases "a = r")
    case True
    with Cons.prems have "k r \<notin> k ` set rows" by simp
    then have "\<forall>x\<in>set rows. k x \<noteq> k r" by (metis imageI)
    then have "filter (\<lambda>x. k x = k r \<and> P x) rows = []"
      by (simp add: filter_empty_conv)
    with True Cons.prems show ?thesis by (simp add: rowcount_def)
  next
    case False
    with Cons.prems have "r \<in> set rows" and "k a \<noteq> k r" by auto
    with Cons show ?thesis by (simp add: rowcount_def)
  qed
qed

lemma filter_distinct_key:
  assumes "distinct (map k rows)" and "r \<in> set rows"
  shows "filter (\<lambda>x. k x = k r) rows = [r]"
  using assms
proof (induction rows)
  case Nil
  then show ?case by simp
next
  case (Cons a rows)
  show ?case
  proof (cases "a = r")
    case True
    with Cons.prems have "k r \<notin> k ` set rows" by simp
    then have "\<forall>x\<in>set rows. k x \<noteq> k r" by (metis imageI)
    then have "filter (\<lambda>x. k x = k r) rows = []" by (simp add: filter_empty_conv)
    with True show ?thesis by simp
  next
    case False
    with Cons.prems have "r \<in> set rows" and "k a \<noteq> k r" by auto
    with Cons show ?thesis by simp
  qed
qed

lemma distinct_key_eq:
  assumes "distinct (map k rows)" and "x \<in> set rows" and "r \<in> set rows" and "k x = k r"
  shows "x = r"
  using assms by (meson distinct_map inj_onD)

lemma rowcount_card_keys:
  assumes "distinct (map k rows)"
  shows "rowcount held rows = card (set (map k (filter held rows)))"
proof -
  have "distinct (map k (filter held rows))"
    using assms by (rule distinct_map_filter)
  then have "card (set (map k (filter held rows))) = length (map k (filter held rows))"
    by (rule distinct_card)
  then show ?thesis by (simp add: rowcount_def)
qed

lemma update_where_Ball:
  assumes "\<forall>x\<in>set rows. Q (if P x then f x else x)"
  shows "\<forall>y\<in>set (update_where P f rows). Q y"
  using assms by (induction rows) (simp_all add: update_where_def)

lemma update_where_mem:
  "r \<in> set rows \<Longrightarrow> cond r \<Longrightarrow> upd r \<in> set (update_where cond upd rows)"
  by (induction rows) (auto simp: update_where_def)

lemma map_key_update_where:
  assumes "\<And>x. k (f x) = k x"
  shows "map k (update_where P f rows) = map k rows"
  by (simp add: update_where_def assms)

lemma claim_keys:
  assumes "\<And>x. k (f x) = k x" and "\<And>x. held (f x)"
    and "r \<in> set rows" and "k r = clave" and "\<not> held r"
  shows "set (map k (filter held (update_where (\<lambda>x. k x = clave \<and> \<not> held x) f rows))) =
         insert clave (set (map k (filter held rows)))"
proof -
  define g where "g = (\<lambda>x. if k x = clave \<and> \<not> held x then f x else x)"
  have kg: "k (g x) = k x" for x by (simp add: g_def assms(1))
  have hg: "held (g x) \<longleftrightarrow> (k x = clave \<or> held x)" for x
    using assms(2) by (auto simp: g_def)
  have "filter held (map g rows) = map g (filter (\<lambda>x. k x = clave \<or> held x) rows)"
    by (simp add: filter_map o_def hg)
  then have "map k (filter held (map g rows)) = map k (filter (\<lambda>x. k x = clave \<or> held x) rows)"
    by (simp add: o_def kg)
  then have "set (map k (filter held (map g rows))) = k ` {x \<in> set rows. k x = clave \<or> held x}"
    by simp
  also have "\<dots> = insert clave (set (map k (filter held rows)))"
    using assms(3,4) by auto
  finally show ?thesis by (simp add: update_where_def g_def)
qed

lemma release_keys:
  assumes "\<And>x. k (f x) = k x" and "\<And>x. \<not> held (f x)"
  shows "set (map k (filter held (update_where (\<lambda>x. k x = clave) f rows))) =
         set (map k (filter held rows)) - {clave}"
proof -
  define g where "g = (\<lambda>x. if k x = clave then f x else x)"
  have kg: "k (g x) = k x" for x by (simp add: g_def assms(1))
  have hg: "held (g x) \<longleftrightarrow> (k x \<noteq> clave \<and> held x)" for x
    using assms(2) by (auto simp: g_def)
  have "filter held (map g rows) = map g (filter (\<lambda>x. k x \<noteq> clave \<and> held x) rows)"
    by (simp add: filter_map o_def hg)
  then have "map k (filter held (map g rows)) = map k (filter (\<lambda>x. k x \<noteq> clave \<and> held x) rows)"
    by (simp add: o_def kg)
  then have "set (map k (filter held (map g rows))) = k ` {x \<in> set rows. k x \<noteq> clave \<and> held x}"
    by simp
  also have "\<dots> = set (map k (filter held rows)) - {clave}"
    by auto
  finally show ?thesis by (simp add: update_where_def g_def)
qed

lemma remove_key:
  assumes "distinct (map k xs)" and "v \<in> set xs"
    and "\<And>x. x \<in> set xs \<Longrightarrow> Q x \<longleftrightarrow> x \<noteq> v"
  shows "set (map k (filter Q xs)) = set (map k xs) - {k v}"
proof -
  from assms(1) have inj: "inj_on k (set xs)" by (simp add: distinct_map)
  have "set (map k (filter Q xs)) = k ` {x \<in> set xs. x \<noteq> v}"
    using assms(3) by auto
  also have "\<dots> = k ` (set xs - {v})" by (rule arg_cong [where f = "image k"]) auto
  also have "\<dots> = k ` set xs - k ` {v}"
    using inj assms(2) by (intro inj_on_image_set_diff [where C = "set xs"]) auto
  finally show ?thesis by simp
qed

lemma fetchone_None: "fetchone_order_by key rows = None \<longleftrightarrow> rows = []"
proof -
  have "sort_key key rows = [] \<longleftrightarrow> rows = []"
    by (metis length_0_conv length_sort)
  then show ?thesis
    by (cases "sort_key key rows") (simp_all add: fetchone_order_by_def)
qed

lemma fetchone_Some:
  assumes "fetchone_order_by key rows = Some r"
  shows "r \<in> set rows \<and> (\<forall>x\<in>set rows. key r \<le> key x)"
proof -
  from assms obtain rest where srt: "sort_key key rows = r # rest"
    by (auto simp: fetchone_order_by_def split: list.splits)
  have "set (sort_key key rows) = set rows" by simp
  with srt have mem: "set rows = insert r (set rest)" by simp
  have "sorted (map key (sort_key key rows))" by (rule sorted_sort_key)
  with srt have "\<forall>x\<in>set rest. key r \<le> key x" by simp
  with mem show ?thesis by auto
qed

subsection \<open>The selectors\<close>

lemma seleccionar_doctor_None:
  "seleccionar_doctor_disponible c = None \<longleftrightarrow>
     filter (\<lambda>d. activo d \<and> disponible d) (doctores c) = []"
proof -
  let ?q = "fetchone_order_by (\<lambda>d. visitas_abiertas_de c (id_doctor d))
               (filter (\<lambda>d. activo d \<and> disponible d) (doctores c))"
  have "seleccionar_doctor_disponible c = None \<longleftrightarrow> ?q = None"
    by (cases ?q) (simp_all add: seleccionar_doctor_disponible_def)
  then show ?thesis by (simp add: fetchone_None)
qed

lemma seleccionar_doctor_Some:
  assumes "seleccionar_doctor_disponible c = Some d"
  shows "\<exists>r\<in>set (doctores c). id_doctor r = d \<and> activo r \<and> disponible r \<and>
           (\<forall>x\<in>set (doctores c). activo x \<and> disponible x \<longrightarrow>
              visitas_abiertas_de c d \<le> visitas_abiertas_de c (id_doctor x))"
proof -
  let ?el = "filter (\<lambda>d. activo d \<and> disponible d) (doctores c)"
  let ?key = "\<lambda>d. visitas_abiertas_de c (id_doctor d)"
  from assms obtain r where f: "fetchone_order_by ?key ?el = Some r" and d: "d = id_doctor r"
    by (simp add: seleccionar_doctor_disponible_def split: option.splits)
  from fetchone_Some [OF f] have "r \<in> set ?el" and "\<forall>x\<in>set ?el. ?key r \<le> ?key x"
    by simp_all
  with d show ?thesis by (intro bexI [of _ r]) simp_all
qed

lemma seleccionar_cama_None:
  "seleccionar_cama_libre c = None \<longleftrightarrow> filter (\<lambda>b. estado b = LIBRE) (camas c) = []"
proof -
  let ?q = "fetchone_order_by (\<lambda>b. (id_sala b, id_cama b))
               (filter (\<lambda>b. estado b = LIBRE) (camas c))"
  have "seleccionar_cama_libre c = None \<longleftrightarrow> ?q = None"
    by (cases ?q) (simp_all add: seleccionar_cama_libre_def)
  then show ?thesis by (simp add: fetchone_None)
qed

lemma seleccionar_cama_Some:
  assumes "seleccionar_cama_libre c = Some (b, s)"
  shows "\<exists>r\<in>set (camas c). id_cama r = b \<and> id_sala r = s \<and> estado r = LIBRE \<and>
           (\<forall>x\<in>set (camas c). estado x = LIBRE \<longrightarrow>
              (id_sala r, id_cama r) \<le> (id_sala x, id_cama x))"
proof -
  let ?el = "filter (\<lambda>b. estado b = LIBRE) (camas c)"
  let ?key = "\<lambda>b. (id_sala b, id_cama b)"
  from assms obtain r where f: "fetchone_order_by ?key ?el = Some r"
    and d: "b = id_cama r" "s = id_sala r"
    by (simp add: seleccionar_cama_libre_def split: option.splits)
  from fetchone_Some [OF f] have "r \<in> set ?el" and "\<forall>x\<in>set ?el. ?key r \<le> ?key x"
    by simp_all
  with d show ?thesis by (intro bexI [of _ r]) simp_all
qed

lemma sel_doctor_c_carga: "seleccionar_doctor_disponible c_carga = Some 2"
  by (simp add: seleccionar_doctor_disponible_def fetchone_order_by_def c_carga_def
      visitas_abiertas_de_def rowcount_def)

text \<open>
  Claim C7. \<^verbatim>\<open>_seleccionar_doctor_disponible\<close> is a query: a function of the store
  that returns an identity and no store. It returns \<open>None\<close> exactly when no doctor is
  active and available. Otherwise the identity it returns belongs to an active,
  available doctor, and no active, available doctor has fewer visits in the table of
  visits that carry its identity and the state \<^verbatim>\<open>ABIERTA\<close>.
\<close>

theorem seleccionar_doctor_disponible_least_loaded:
  "(seleccionar_doctor_disponible c = None \<longleftrightarrow>
      \<not> (\<exists>r\<in>set (doctores c). activo r \<and> disponible r)) \<and>
   (\<forall>d. seleccionar_doctor_disponible c = Some d \<longrightarrow>
      (\<exists>r\<in>set (doctores c). id_doctor r = d \<and> activo r \<and> disponible r) \<and>
      (\<forall>x\<in>set (doctores c). activo x \<and> disponible x \<longrightarrow>
         length (filter (\<lambda>v. v_id_doctor v = d \<and> v_estado v = ABIERTA) (visitas c)) \<le>
         length (filter (\<lambda>v. v_id_doctor v = id_doctor x \<and> v_estado v = ABIERTA) (visitas c))))"
proof (intro conjI allI impI)
  show "seleccionar_doctor_disponible c = None \<longleftrightarrow>
      \<not> (\<exists>r\<in>set (doctores c). activo r \<and> disponible r)"
    by (simp add: seleccionar_doctor_None filter_empty_conv)
next
  fix d assume "seleccionar_doctor_disponible c = Some d"
  from seleccionar_doctor_Some [OF this]
  obtain r where r: "r \<in> set (doctores c)" "id_doctor r = d" "activo r" "disponible r"
    and m: "\<forall>x\<in>set (doctores c). activo x \<and> disponible x \<longrightarrow>
              visitas_abiertas_de c d \<le> visitas_abiertas_de c (id_doctor x)"
    by blast
  from r show "\<exists>r\<in>set (doctores c). id_doctor r = d \<and> activo r \<and> disponible r"
    by (intro bexI [of _ r]) simp_all
  from m show "\<forall>x\<in>set (doctores c). activo x \<and> disponible x \<longrightarrow>
         length (filter (\<lambda>v. v_id_doctor v = d \<and> v_estado v = ABIERTA) (visitas c)) \<le>
         length (filter (\<lambda>v. v_id_doctor v = id_doctor x \<and> v_estado v = ABIERTA) (visitas c))"
    by (simp add: visitas_abiertas_de_def rowcount_def)
qed

text \<open>
  Doctor 1 has one open visit, doctor 2 has none and doctor 3 is inactive: doctor 2 is
  selected. Without doctors nothing is selected.
\<close>

theorem seleccionar_doctor_disponible_least_loaded_witness:
  "seleccionar_doctor_disponible c_carga = Some 2 \<and>
   length (filter (\<lambda>v. v_id_doctor v = 2 \<and> v_estado v = ABIERTA) (visitas c_carga)) = 0 \<and>
   length (filter (\<lambda>v. v_id_doctor v = 1 \<and> v_estado v = ABIERTA) (visitas c_carga)) = 1 \<and>
   (\<exists>r\<in>set (doctores c_carga). id_doctor r = 2 \<and> activo r \<and> disponible r) \<and>
   seleccionar_doctor_disponible (c_carga\<lparr>doctores := []\<rparr>) = None"
proof -
  have a: "seleccionar_doctor_disponible c_carga = Some 2" by (rule sel_doctor_c_carga)
  have b: "length (filter (\<lambda>v. v_id_doctor v = 2 \<and> v_estado v = ABIERTA) (visitas c_carga)) = 0 \<and>
     length (filter (\<lambda>v. v_id_doctor v = 1 \<and> v_estado v = ABIERTA) (visitas c_carga)) = 1"
    by (simp add: c_carga_def)
  have c: "\<not> (\<exists>r\<in>set (doctores (c_carga\<lparr>doctores := []\<rparr>)). activo r \<and> disponible r)"
    by simp
  from a b c seleccionar_doctor_disponible_least_loaded [of c_carga]
    seleccionar_doctor_disponible_least_loaded [of "c_carga\<lparr>doctores := []\<rparr>"]
  show ?thesis by blast
qed

subsection \<open>Claiming a doctor and a bed\<close>

lemma ocupar_fst:
  "fst (ocupar_recursos d b s c) \<longleftrightarrow>
     rowcount (\<lambda>r. id_doctor r = d \<and> disponible r) (doctores c) = 1 \<and>
     rowcount (\<lambda>r. id_cama r = b \<and> id_sala r = s \<and> estado r = LIBRE) (camas c) = 1"
  by (simp add: ocupar_recursos_def Let_def)

lemma ocupar_snd_ok:
  "fst (ocupar_recursos d b s c) \<Longrightarrow>
   snd (ocupar_recursos d b s c) =
     c\<lparr>doctores := update_where (\<lambda>r. id_doctor r = d \<and> disponible r)
                      (\<lambda>r. r\<lparr>disponible := False\<rparr>) (doctores c),
       camas := update_where (\<lambda>r. id_cama r = b \<and> id_sala r = s \<and> estado r = LIBRE)
                      (\<lambda>r. r\<lparr>estado := OCUPADA\<rparr>) (camas c)\<rparr>"
  by (simp add: ocupar_recursos_def Let_def split: if_splits)

lemma compensar_doctor:
  "update_where (\<lambda>r. id_doctor r = d) (\<lambda>r. r\<lparr>disponible := True\<rparr>)
     (update_where (\<lambda>r. id_doctor r = d \<and> disponible r) (\<lambda>r. r\<lparr>disponible := False\<rparr>) ds) =
   update_where (\<lambda>r. id_doctor r = d) (\<lambda>r. r\<lparr>disponible := True\<rparr>) ds"
  by (simp add: update_where_def)

lemma ocupar_doctores_compensados:
  assumes "rowcount (\<lambda>r. id_doctor r = d \<and> disponible r) (doctores c) = 1"
    and "rowcount (\<lambda>r. id_cama r = b \<and> id_sala r = s \<and> estado r = LIBRE) (camas c) \<noteq> 1"
  shows "doctores (snd (ocupar_recursos d b s c)) =
     update_where (\<lambda>r. id_doctor r = d) (\<lambda>r. r\<lparr>disponible := True\<rparr>) (doctores c)"
  using assms by (simp add: ocupar_recursos_def Let_def compensar_doctor)

lemma doctores_ocupados:
  "\<forall>x\<in>set (update_where (\<lambda>r. id_doctor r = d \<and> disponible r)
                (\<lambda>r. r\<lparr>disponible := False\<rparr>) ds). id_doctor x = d \<longrightarrow> \<not> disponible x"
  by (rule update_where_Ball [where Q = "\<lambda>x. id_doctor x = d \<longrightarrow> \<not> disponible x"]) simp

lemma camas_ocupadas:
  "\<forall>x\<in>set (update_where (\<lambda>r. id_cama r = b \<and> id_sala r = s \<and> estado r = LIBRE)
                (\<lambda>r. r\<lparr>estado := OCUPADA\<rparr>) bs). id_cama x = b \<and> id_sala x = s \<longrightarrow> estado x = OCUPADA"
  by (rule update_where_Ball
        [where Q = "\<lambda>x. id_cama x = b \<and> id_sala x = s \<longrightarrow> estado x = OCUPADA"])
     (simp, metis estado_cama.exhaust)

lemma doctores_compensados:
  "\<forall>x\<in>set (update_where (\<lambda>r. id_doctor r = d) (\<lambda>r. r\<lparr>disponible := True\<rparr>) ds).
     id_doctor x = d \<longrightarrow> disponible x"
  by (rule update_where_Ball [where Q = "\<lambda>x. id_doctor x = d \<longrightarrow> disponible x"]) simp

lemma cond_cama_libre:
  "(\<lambda>x. id_cama x = b \<and> id_sala x = s \<and> estado x = LIBRE) =
   (\<lambda>x. (id_sala x, id_cama x) = (s, b) \<and> estado x \<noteq> OCUPADA)"
proof (rule ext)
  fix x :: "'a cama_scheme"
  show "(id_cama x = b \<and> id_sala x = s \<and> estado x = LIBRE) =
        ((id_sala x, id_cama x) = (s, b) \<and> estado x \<noteq> OCUPADA)"
    by (cases "estado x") (simp_all add: conj_commute)
qed

lemma cond_cama_clave:
  "(\<lambda>x. id_cama x = b \<and> id_sala x = s) = (\<lambda>x. (id_sala x, id_cama x) = (s, b))"
  by (rule ext) (simp add: conj_commute)

lemma rowcount_doctor_seleccionado:
  assumes "distinct (map id_doctor (doctores c))"
    and "seleccionar_doctor_disponible c = Some d"
  shows "rowcount (\<lambda>r. id_doctor r = d \<and> disponible r) (doctores c) = 1"
proof -
  from seleccionar_doctor_Some [OF assms(2)]
  obtain r where r: "r \<in> set (doctores c)" "id_doctor r = d" "disponible r" by blast
  from rowcount_distinct_key [OF assms(1) r(1), of disponible] r(2,3)
  show ?thesis by simp
qed

lemma rowcount_cama_seleccionada:
  assumes "distinct (map (\<lambda>x. (id_sala x, id_cama x)) (camas c))"
    and "seleccionar_cama_libre c = Some (b, s)"
  shows "rowcount (\<lambda>x. id_cama x = b \<and> id_sala x = s \<and> estado x = LIBRE) (camas c) = 1"
proof -
  from seleccionar_cama_Some [OF assms(2)]
  obtain x where x: "x \<in> set (camas c)" "id_cama x = b" "id_sala x = s" "estado x = LIBRE"
    by blast
  from x(4) have "estado x \<noteq> OCUPADA" by simp
  from rowcount_distinct_key [OF assms(1) x(1), of "\<lambda>x. estado x \<noteq> OCUPADA", OF this] x(2,3)
  show ?thesis by (simp add: cond_cama_libre)
qed

lemma ocupar_seleccionados:
  assumes "distinct (map id_doctor (doctores c))"
    and "distinct (map (\<lambda>x. (id_sala x, id_cama x)) (camas c))"
    and "seleccionar_doctor_disponible c = Some d"
    and "seleccionar_cama_libre c = Some (b, s)"
  shows "fst (ocupar_recursos d b s c)"
  using rowcount_doctor_seleccionado [OF assms(1,3)] rowcount_cama_seleccionada [OF assms(2,4)]
  by (simp add: ocupar_fst)

subsection \<open>Opening a visit\<close>

lemma fila_visita_Inr:
  assumes "fila_visita fol ahora p d b s = Inr v"
  shows "folio v = fol \<and> v_id_doctor v = d \<and> v_id_cama v = b \<and> v_id_sala v = s \<and>
         v_estado v = ABIERTA \<and> fecha_hora_inicio v = ahora \<and> fecha_hora_cierre v = None \<and>
         Some (id_paciente v) = p_id_paciente p \<and> Some (id_trabajador v) = p_id_trabajador p \<and>
         Some (origen_solicitud v) = p_origen_solicitud p \<and>
         prioridad v = (case p_prioridad p of None \<Rightarrow> 3 | Some n \<Rightarrow> n) \<and>
         motivo v = (case p_motivo p of None \<Rightarrow> [] | Some m \<Rightarrow> m)"
proof (cases "p_id_paciente p")
  case None
  with assms show ?thesis by (simp add: fila_visita_def)
next
  case pac: (Some pac)
  show ?thesis
  proof (cases "p_id_trabajador p")
    case None
    with assms pac show ?thesis by (simp add: fila_visita_def)
  next
    case trab: (Some trab)
    show ?thesis
    proof (cases "p_origen_solicitud p")
      case None
      with assms pac trab show ?thesis by (simp add: fila_visita_def)
    next
      case (Some orig)
      with assms pac trab have "v = \<lparr>folio = fol, id_paciente = pac, v_id_doctor = d,
               id_trabajador = trab, v_id_sala = s, v_id_cama = b, origen_solicitud = orig,
               prioridad = (case p_prioridad p of None \<Rightarrow> 3 | Some n \<Rightarrow> n),
               motivo = (case p_motivo p of None \<Rightarrow> [] | Some m \<Rightarrow> m),
               fecha_hora_inicio = ahora, fecha_hora_cierre = None,
               v_estado = ABIERTA\<rparr>"
        by (simp add: fila_visita_def Let_def split: if_splits)
      with pac trab Some show ?thesis by simp
    qed
  qed
qed

lemma fila_visita_Inl:
  "fila_visita fol ahora p d b s = Inl e \<Longrightarrow> e = OverflowError \<or> (\<exists>k. e = KeyError k)"
  by (auto simp: fila_visita_def Let_def split: option.splits if_splits)

lemma fila_visita_falta:
  assumes "p_id_paciente p = None \<or> p_id_trabajador p = None \<or> p_origen_solicitud p = None"
  shows "fila_visita fol ahora p d b s =
     Inl (KeyError (if p_id_paciente p = None then ''id_paciente''
                    else if p_id_trabajador p = None then ''id_trabajador''
                    else ''origen_solicitud''))"
  using assms by (auto simp: fila_visita_def split: option.splits)

lemma crear_visita_body_alt:
  "crear_visita_body fol ahora p c =
     (case seleccionar_doctor_disponible c of
        None \<Rightarrow> (Inl NoHayDoctorDisponible, c)
      | Some d \<Rightarrow>
          if d = 0 then (Inl NoHayDoctorDisponible, c)
          else
            (case seleccionar_cama_libre c of
               None \<Rightarrow> (Inl NoHayCamasLibres, c)
             | Some bs \<Rightarrow>
                 if fst bs = 0 then (Inl NoHayCamasLibres, c)
                 else if \<not> fst (ocupar_recursos d (fst bs) (snd bs) c)
                 then (Inl RecursosTomados, snd (ocupar_recursos d (fst bs) (snd bs) c))
                 else
                   (case fila_visita fol ahora p d (fst bs) (snd bs) of
                      Inl e \<Rightarrow> (Inl e, snd (ocupar_recursos d (fst bs) (snd bs) c))
                    | Inr v \<Rightarrow>
                        (Inr \<lparr>r_folio = folio v, r_id_doctor = d,
                              r_id_cama = fst bs, r_id_sala = snd bs\<rparr>,
                         (snd (ocupar_recursos d (fst bs) (snd bs) c))
                           \<lparr>visitas := visitas (snd (ocupar_recursos d (fst bs) (snd bs) c)) @ [v]\<rparr>))))"
  by (simp add: crear_visita_body_def split: option.split prod.split bool.split sum.split)

text \<open>The outcomes of the body of crear_visita_tx.\<close>

lemma crear_visita_body_outcomes:
  obtains
    (no_doctor)
      "seleccionar_doctor_disponible c = None \<or> seleccionar_doctor_disponible c = Some 0"
      "crear_visita_body fol ahora p c = (Inl NoHayDoctorDisponible, c)"
  | (no_cama) d where "seleccionar_doctor_disponible c = Some d" "d \<noteq> 0"
      "seleccionar_cama_libre c = None \<or> (\<exists>s. seleccionar_cama_libre c = Some (0, s))"
      "crear_visita_body fol ahora p c = (Inl NoHayCamasLibres, c)"
  | (tomados) d b s where "seleccionar_doctor_disponible c = Some d" "d \<noteq> 0"
      "seleccionar_cama_libre c = Some (b, s)" "b \<noteq> 0"
      "\<not> fst (ocupar_recursos d b s c)"
      "crear_visita_body fol ahora p c = (Inl RecursosTomados, snd (ocupar_recursos d b s c))"
  | (key_error) d b s e where "seleccionar_doctor_disponible c = Some d" "d \<noteq> 0"
      "seleccionar_cama_libre c = Some (b, s)" "b \<noteq> 0"
      "fst (ocupar_recursos d b s c)" "fila_visita fol ahora p d b s = Inl e"
      "crear_visita_body fol ahora p c = (Inl e, snd (ocupar_recursos d b s c))"
  | (ok) d b s v where "seleccionar_doctor_disponible c = Some d" "d \<noteq> 0"
      "seleccionar_cama_libre c = Some (b, s)" "b \<noteq> 0"
      "fst (ocupar_recursos d b s c)" "fila_visita fol ahora p d b s = Inr v"
      "crear_visita_body fol ahora p c =
         (Inr \<lparr>r_folio = folio v, r_id_doctor = d, r_id_cama = b, r_id_sala = s\<rparr>,
          (snd (ocupar_recursos d b s c))\<lparr>visitas := visitas (snd (ocupar_recursos d b s c)) @ [v]\<rparr>)"
proof (cases "seleccionar_doctor_disponible c")
  case None
  then show ?thesis by (intro no_doctor) (simp_all add: crear_visita_body_alt)
next
  case sd: (Some d)
  show ?thesis
  proof (cases "d = 0")
    case True
    with sd show ?thesis by (intro no_doctor) (simp_all add: crear_visita_body_alt)
  next
    case d0: False
    show ?thesis
    proof (cases "seleccionar_cama_libre c")
      case None
      with sd d0 show ?thesis by (intro no_cama [of d]) (simp_all add: crear_visita_body_alt)
    next
      case (Some bs)
      then obtain b s where sb: "seleccionar_cama_libre c = Some (b, s)"
        by (cases bs) simp
      show ?thesis
      proof (cases "b = 0")
        case True
        with sd d0 sb show ?thesis by (intro no_cama [of d]) (simp_all add: crear_visita_body_alt)
      next
        case b0: False
        show ?thesis
        proof (cases "fst (ocupar_recursos d b s c)")
          case False
          with sd d0 sb b0 show ?thesis
            by (intro tomados [of d b s]) (simp_all add: crear_visita_body_alt)
        next
          case oc: True
          show ?thesis
          proof (cases "fila_visita fol ahora p d b s")
            case (Inl e)
            with sd d0 sb b0 oc show ?thesis
              by (intro key_error [of d b s e]) (simp_all add: crear_visita_body_alt)
          next
            case (Inr v)
            with sd d0 sb b0 oc show ?thesis
              by (intro ok [of d b s v]) (simp_all add: crear_visita_body_alt)
          qed
        qed
      qed
    qed
  qed
qed

lemma crear_tx_fail:
  "crear_visita_body fol ahora p c = (Inl e, c') \<Longrightarrow> crear_visita_tx fol ahora p c = (Inl e, c)"
  by (simp add: crear_visita_tx_def tx_def)

lemma crear_tx_ok:
  "crear_visita_body fol ahora p c = (Inr r, c') \<Longrightarrow> crear_visita_tx fol ahora p c = (Inr r, c')"
  by (simp add: crear_visita_tx_def tx_def)

lemma crear_tx_estado_ok:
  assumes "fst (ocupar_recursos d b s c)"
    and "crear_visita_body fol ahora p c =
         (Inr r, (snd (ocupar_recursos d b s c))\<lparr>visitas := visitas (snd (ocupar_recursos d b s c)) @ [v]\<rparr>)"
  shows "snd (crear_visita_tx fol ahora p c) =
     c\<lparr>doctores := update_where (\<lambda>r. id_doctor r = d \<and> disponible r)
                      (\<lambda>r. r\<lparr>disponible := False\<rparr>) (doctores c),
       camas := update_where (\<lambda>r. id_cama r = b \<and> id_sala r = s \<and> estado r = LIBRE)
                      (\<lambda>r. r\<lparr>estado := OCUPADA\<rparr>) (camas c),
       visitas := visitas c @ [v]\<rparr>"
  unfolding crear_tx_ok [OF assms(2)] by (simp add: ocupar_snd_ok [OF assms(1)])

lemma sel_doctor_c_uno: "seleccionar_doctor_disponible c_uno = Some 1"
  by (simp add: seleccionar_doctor_disponible_def fetchone_order_by_def c_uno_def)

lemma sel_cama_c_uno: "seleccionar_cama_libre c_uno = Some (1, 1)"
  by (simp add: seleccionar_cama_libre_def fetchone_order_by_def c_uno_def)

lemma sel_doctor_c_dup: "seleccionar_doctor_disponible c_dup = Some 1"
  by (simp add: seleccionar_doctor_disponible_def fetchone_order_by_def c_dup_def)

lemma sel_cama_c_dup: "seleccionar_cama_libre c_dup = Some (1, 1)"
  by (simp add: seleccionar_cama_libre_def fetchone_order_by_def c_dup_def)

lemma ocupar_c_uno:
  "ocupar_recursos 1 1 1 c_uno =
     (True, \<lparr>doctores = [\<lparr>id_doctor = 1, activo = True, disponible = False\<rparr>],
             camas = [\<lparr>id_cama = 1, id_sala = 1, estado = OCUPADA\<rparr>],
             visitas = []\<rparr>)"
  by (simp add: ocupar_recursos_def Let_def rowcount_def update_where_def c_uno_def)

lemma ocupar_c_dup:
  "ocupar_recursos 1 1 1 c_dup =
     (False, \<lparr>doctores = [\<lparr>id_doctor = 1, activo = True, disponible = True\<rparr>],
              camas = [\<lparr>id_cama = 1, id_sala = 1, estado = OCUPADA\<rparr>,
                       \<lparr>id_cama = 1, id_sala = 1, estado = OCUPADA\<rparr>],
              visitas = []\<rparr>)"
  by (simp add: ocupar_recursos_def Let_def rowcount_def update_where_def c_dup_def)

lemma crear_body_c_uno:
  "crear_visita_body ''F1'' ''t0'' p_ok c_uno =
     (Inr \<lparr>r_folio = ''F1'', r_id_doctor = 1, r_id_cama = 1, r_id_sala = 1\<rparr>,
      \<lparr>doctores = [\<lparr>id_doctor = 1, activo = True, disponible = False\<rparr>],
       camas = [\<lparr>id_cama = 1, id_sala = 1, estado = OCUPADA\<rparr>],
       visitas = [\<lparr>folio = ''F1'', id_paciente = 1, v_id_doctor = 1, id_trabajador = 9,
                  v_id_sala = 1, v_id_cama = 1, origen_solicitud = ''walk-in'', prioridad = 3,
                  motivo = [], fecha_hora_inicio = ''t0'', fecha_hora_cierre = None,
                  v_estado = ABIERTA\<rparr>]\<rparr>)"
  by (simp add: crear_visita_body_def sel_doctor_c_uno sel_cama_c_uno ocupar_c_uno
      fila_visita_def Let_def sqlite_integer_def p_ok_def)

lemma crear_body_c_dup:
  "crear_visita_body ''F2'' ''t0'' p_ok c_dup =
     (Inl RecursosTomados,
      \<lparr>doctores = [\<lparr>id_doctor = 1, activo = True, disponible = True\<rparr>],
       camas = [\<lparr>id_cama = 1, id_sala = 1, estado = OCUPADA\<rparr>,
                \<lparr>id_cama = 1, id_sala = 1, estado = OCUPADA\<rparr>],
       visitas = []\<rparr>)"
  by (simp add: crear_visita_body_def sel_doctor_c_dup sel_cama_c_dup ocupar_c_dup)

text \<open>
  Claim C1. Whatever the arguments and the store, \<^verbatim>\<open>crear_visita_tx\<close> either fails and
  leaves the store as it was, or succeeds and then all three writes are there: exactly
  one row of the returned doctor was flipped and every row of that doctor is
  unavailable, exactly one row of the returned bed was flipped and every row of that
  bed is occupied, and the visits are the former visits followed by one open visit of
  the returned folio, doctor, bed and room.
\<close>

theorem crear_visita_tx_all_or_nothing:
  "(case crear_visita_tx fol ahora p c of
      (Inl e, c') \<Rightarrow> c' = c
    | (Inr r, c') \<Rightarrow>
        rowcount (\<lambda>x. id_doctor x = r_id_doctor r \<and> disponible x) (doctores c) = 1 \<and>
        doctores c' = update_where (\<lambda>x. id_doctor x = r_id_doctor r \<and> disponible x)
                        (\<lambda>x. x\<lparr>disponible := False\<rparr>) (doctores c) \<and>
        (\<forall>x\<in>set (doctores c'). id_doctor x = r_id_doctor r \<longrightarrow> \<not> disponible x) \<and>
        rowcount (\<lambda>x. id_cama x = r_id_cama r \<and> id_sala x = r_id_sala r \<and> estado x = LIBRE)
          (camas c) = 1 \<and>
        camas c' = update_where
                     (\<lambda>x. id_cama x = r_id_cama r \<and> id_sala x = r_id_sala r \<and> estado x = LIBRE)
                     (\<lambda>x. x\<lparr>estado := OCUPADA\<rparr>) (camas c) \<and>
        (\<forall>x\<in>set (camas c'). id_cama x = r_id_cama r \<and> id_sala x = r_id_sala r \<longrightarrow>
           estado x = OCUPADA) \<and>
        (\<exists>v. visitas c' = visitas c @ [v] \<and> v_estado v = ABIERTA \<and> folio v = r_folio r \<and>
           v_id_doctor v = r_id_doctor r \<and> v_id_cama v = r_id_cama r \<and>
           v_id_sala v = r_id_sala r))"
proof (cases rule: crear_visita_body_outcomes
      [where fol = fol and ahora = ahora and p = p and c = c])
  case no_doctor
  then show ?thesis by (simp add: crear_tx_fail)
next
  case (no_cama d)
  then show ?thesis by (simp add: crear_tx_fail)
next
  case (tomados d b s)
  then show ?thesis by (simp add: crear_tx_fail)
next
  case (key_error d b s e)
  then show ?thesis by (simp add: crear_tx_fail)
next
  case (ok d b s v)
  let ?c1 = "snd (ocupar_recursos d b s c)"
  have tx: "crear_visita_tx fol ahora p c =
     (Inr \<lparr>r_folio = folio v, r_id_doctor = d, r_id_cama = b, r_id_sala = s\<rparr>,
      ?c1\<lparr>visitas := visitas ?c1 @ [v]\<rparr>)"
    using ok(7) by (rule crear_tx_ok)
  have c1: "?c1 = c\<lparr>doctores := update_where (\<lambda>r. id_doctor r = d \<and> disponible r)
                      (\<lambda>r. r\<lparr>disponible := False\<rparr>) (doctores c),
       camas := update_where (\<lambda>r. id_cama r = b \<and> id_sala r = s \<and> estado r = LIBRE)
                      (\<lambda>r. r\<lparr>estado := OCUPADA\<rparr>) (camas c)\<rparr>"
    using ok(5) by (rule ocupar_snd_ok)
  have counts: "rowcount (\<lambda>r. id_doctor r = d \<and> disponible r) (doctores c) = 1"
    "rowcount (\<lambda>r. id_cama r = b \<and> id_sala r = s \<and> estado r = LIBRE) (camas c) = 1"
    using ok(5) by (simp_all add: ocupar_fst)
  have v: "v_estado v = ABIERTA" "v_id_doctor v = d" "v_id_cama v = b" "v_id_sala v = s"
    using fila_visita_Inr [OF ok(6)] by simp_all
  show ?thesis
    unfolding tx c1
    using counts v doctores_ocupados [of d "doctores c"] camas_ocupadas [of b s "camas c"]
    by simp
qed

text \<open>
  Scenario A of the specification succeeds with all three writes. On a store whose
  free bed is stored twice the body stops after it has written to the beds, and the
  transaction gives back the store it started from.
\<close>

theorem crear_visita_tx_all_or_nothing_witness:
  "crear_visita_tx ''F1'' ''t0'' p_ok c_uno =
     (Inr \<lparr>r_folio = ''F1'', r_id_doctor = 1, r_id_cama = 1, r_id_sala = 1\<rparr>,
      \<lparr>doctores = [\<lparr>id_doctor = 1, activo = True, disponible = False\<rparr>],
       camas = [\<lparr>id_cama = 1, id_sala = 1, estado = OCUPADA\<rparr>],
       visitas = [\<lparr>folio = ''F1'', id_paciente = 1, v_id_doctor = 1, id_trabajador = 9,
                  v_id_sala = 1, v_id_cama = 1, origen_solicitud = ''walk-in'', prioridad = 3,
                  motivo = [], fecha_hora_inicio = ''t0'', fecha_hora_cierre = None,
                  v_estado = ABIERTA\<rparr>]\<rparr>) \<and>
   rowcount (\<lambda>x. id_doctor x = 1 \<and> disponible x) (doctores c_uno) = 1 \<and>
   crear_visita_body ''F2'' ''t0'' p_ok c_dup \<noteq> (Inl RecursosTomados, c_dup) \<and>
   crear_visita_tx ''F2'' ''t0'' p_ok c_dup = (Inl RecursosTomados, c_dup)"
proof -
  note a = crear_tx_ok [OF crear_body_c_uno]
  have b': "crear_visita_body ''F2'' ''t0'' p_ok c_dup \<noteq> (Inl RecursosTomados, c_dup)"
    unfolding crear_body_c_dup by (simp add: c_dup_def)
  note c = crear_tx_fail [OF crear_body_c_dup]
  from a b' c crear_visita_tx_all_or_nothing
      [where fol = "''F1''" and ahora = "''t0''" and p = p_ok and c = c_uno]
    crear_visita_tx_all_or_nothing
      [where fol = "''F2''" and ahora = "''t0''" and p = p_ok and c = c_dup]
  show ?thesis by simp
qed

text \<open>
  Claim C5. When the update that claims the doctor touches exactly one row and the
  update that claims the bed touches a number of rows other than one,
  \<^verbatim>\<open>_ocupar_recursos\<close> returns \<open>False\<close> after an update that sets every row of that
  doctor available again, whatever the row held before. When the doctor and the bed
  are the ones \<^verbatim>\<open>crear_visita_tx\<close> selected, its body stops in that store with the
  error \<^verbatim>\<open>Recursos tomados, reintente\<close>, and the transaction gives back the store it
  started from.
\<close>

theorem ocupar_recursos_compensates:
  assumes "rowcount (\<lambda>r. id_doctor r = d \<and> disponible r) (doctores c) = 1"
    and "rowcount (\<lambda>r. id_cama r = b \<and> id_sala r = s \<and> estado r = LIBRE) (camas c) \<noteq> 1"
  shows "\<not> fst (ocupar_recursos d b s c) \<and>
     doctores (snd (ocupar_recursos d b s c)) =
       update_where (\<lambda>r. id_doctor r = d) (\<lambda>r. r\<lparr>disponible := True\<rparr>) (doctores c) \<and>
     (\<forall>r\<in>set (doctores (snd (ocupar_recursos d b s c))). id_doctor r = d \<longrightarrow> disponible r) \<and>
     (seleccionar_doctor_disponible c = Some d \<and> d \<noteq> 0 \<and>
      seleccionar_cama_libre c = Some (b, s) \<and> b \<noteq> 0 \<longrightarrow>
        crear_visita_body fol ahora p c = (Inl RecursosTomados, snd (ocupar_recursos d b s c)) \<and>
        crear_visita_tx fol ahora p c = (Inl RecursosTomados, c))"
proof (intro conjI impI)
  show nf: "\<not> fst (ocupar_recursos d b s c)"
    using assms(2) by (simp add: ocupar_fst)
  show ds: "doctores (snd (ocupar_recursos d b s c)) =
       update_where (\<lambda>r. id_doctor r = d) (\<lambda>r. r\<lparr>disponible := True\<rparr>) (doctores c)"
    using assms by (rule ocupar_doctores_compensados)
  show "\<forall>r\<in>set (doctores (snd (ocupar_recursos d b s c))). id_doctor r = d \<longrightarrow> disponible r"
    unfolding ds by (rule doctores_compensados)
  assume sel: "seleccionar_doctor_disponible c = Some d \<and> d \<noteq> 0 \<and>
      seleccionar_cama_libre c = Some (b, s) \<and> b \<noteq> 0"
  with nf show body: "crear_visita_body fol ahora p c =
      (Inl RecursosTomados, snd (ocupar_recursos d b s c))"
    by (simp add: crear_visita_body_alt)
  then show "crear_visita_tx fol ahora p c = (Inl RecursosTomados, c)"
    by (rule crear_tx_fail)
qed

text \<open>
  A store whose free bed is stored twice (the bed update touches two rows), and a bed
  that has no row (the update touches none): in both the doctor is available again.
\<close>

theorem ocupar_recursos_compensates_witness:
  "rowcount (\<lambda>r. id_doctor r = 1 \<and> disponible r) (doctores c_dup) = 1 \<and>
   rowcount (\<lambda>r. id_cama r = 1 \<and> id_sala r = 1 \<and> estado r = LIBRE) (camas c_dup) = 2 \<and>
   seleccionar_doctor_disponible c_dup = Some 1 \<and> seleccionar_cama_libre c_dup = Some (1, 1) \<and>
   \<not> fst (ocupar_recursos 1 1 1 c_dup) \<and>
   doctores (snd (ocupar_recursos 1 1 1 c_dup)) =
     [\<lparr>id_doctor = 1, activo = True, disponible = True\<rparr>] \<and>
   crear_visita_tx ''F2'' ''t0'' p_ok c_dup = (Inl RecursosTomados, c_dup) \<and>
   rowcount (\<lambda>r. id_cama r = 5 \<and> id_sala r = 5 \<and> estado r = LIBRE) (camas c_uno) = 0 \<and>
   \<not> fst (ocupar_recursos 1 5 5 c_uno) \<and>
   doctores (snd (ocupar_recursos 1 5 5 c_uno)) =
     [\<lparr>id_doctor = 1, activo = True, disponible = True\<rparr>]"
proof -
  have d1: "rowcount (\<lambda>r. id_doctor r = 1 \<and> disponible r) (doctores c_dup) = 1"
    by (simp add: rowcount_def c_dup_def)
  have b1: "rowcount (\<lambda>r. id_cama r = 1 \<and> id_sala r = 1 \<and> estado r = LIBRE) (camas c_dup) = 2"
    by (simp add: rowcount_def c_dup_def)
  then have b1': "rowcount (\<lambda>r. id_cama r = 1 \<and> id_sala r = 1 \<and> estado r = LIBRE) (camas c_dup) \<noteq> 1"
    by simp
  have d2: "rowcount (\<lambda>r. id_doctor r = 1 \<and> disponible r) (doctores c_uno) = 1"
    by (simp add: rowcount_def c_uno_def)
  have b2: "rowcount (\<lambda>r. id_cama r = 5 \<and> id_sala r = 5 \<and> estado r = LIBRE) (camas c_uno) = 0"
    by (simp add: rowcount_def c_uno_def)
  then have b2': "rowcount (\<lambda>r. id_cama r = 5 \<and> id_sala r = 5 \<and> estado r = LIBRE) (camas c_uno) \<noteq> 1"
    by simp
  have u1: "update_where (\<lambda>r. id_doctor r = 1) (\<lambda>r. r\<lparr>disponible := True\<rparr>) (doctores c_dup) =
     [\<lparr>id_doctor = 1, activo = True, disponible = True\<rparr>]"
    by (simp add: update_where_def c_dup_def)
  have u2: "update_where (\<lambda>r. id_doctor r = 1) (\<lambda>r. r\<lparr>disponible := True\<rparr>) (doctores c_uno) =
     [\<lparr>id_doctor = 1, activo = True, disponible = True\<rparr>]"
    by (simp add: update_where_def c_uno_def)
  from ocupar_recursos_compensates [OF d1 b1', of "''F2''" "''t0''" p_ok]
    ocupar_recursos_compensates [OF d2 b2', of "''F2''" "''t0''" p_ok]
    d1 b1 b2 u1 u2 sel_doctor_c_dup sel_cama_c_dup
  show ?thesis by simp
qed

text \<open>
  The success path of \<^verbatim>\<open>crear_visita_tx\<close>: in a store with unique identities, none of
  them 0, that has an active, available doctor and a free bed, a payload with the
  three required keys and integers that fit SQLite gives a visit. The result names the selected doctor and bed, one
  row of each is flipped, and the visit is appended with the state \<^verbatim>\<open>ABIERTA\<close>, the time
  of the call, priority 3 and an empty reason unless the payload gives them.
\<close>

lemma crear_visita_tx_success:
  assumes "distinct (map id_doctor (doctores c))"
    and "distinct (map (\<lambda>x. (id_sala x, id_cama x)) (camas c))"
    and "\<exists>r\<in>set (doctores c). activo r \<and> disponible r"
    and "\<exists>x\<in>set (camas c). estado x = LIBRE"
    and "\<forall>r\<in>set (doctores c). id_doctor r \<noteq> 0"
    and "\<forall>x\<in>set (camas c). id_cama x \<noteq> 0"
    and "p_id_paciente p = Some pac" and "p_id_trabajador p = Some trab"
    and "p_origen_solicitud p = Some orig"
    and "sqlite_integer pac" and "sqlite_integer trab"
    and "sqlite_integer (case p_prioridad p of None \<Rightarrow> 3 | Some n \<Rightarrow> n)"
  shows "\<exists>d b s. seleccionar_doctor_disponible c = Some d \<and>
     seleccionar_cama_libre c = Some (b, s) \<and>
     crear_visita_tx fol ahora p c =
       (Inr \<lparr>r_folio = fol, r_id_doctor = d, r_id_cama = b, r_id_sala = s\<rparr>,
        c\<lparr>doctores := update_where (\<lambda>r. id_doctor r = d \<and> disponible r)
                         (\<lambda>r. r\<lparr>disponible := False\<rparr>) (doctores c),
          camas := update_where (\<lambda>r. id_cama r = b \<and> id_sala r = s \<and> estado r = LIBRE)
                         (\<lambda>r. r\<lparr>estado := OCUPADA\<rparr>) (camas c),
          visitas := visitas c @
            [\<lparr>folio = fol, id_paciente = pac, v_id_doctor = d, id_trabajador = trab,
              v_id_sala = s, v_id_cama = b, origen_solicitud = orig,
              prioridad = (case p_prioridad p of None \<Rightarrow> 3 | Some n \<Rightarrow> n),
              motivo = (case p_motivo p of None \<Rightarrow> [] | Some m \<Rightarrow> m),
              fecha_hora_inicio = ahora, fecha_hora_cierre = None,
              v_estado = ABIERTA\<rparr>]\<rparr>)"
proof -
  from assms(3) have "filter (\<lambda>d. activo d \<and> disponible d) (doctores c) \<noteq> []"
    by (simp add: filter_empty_conv)
  then obtain d where sd: "seleccionar_doctor_disponible c = Some d"
    using seleccionar_doctor_None [of c] by (cases "seleccionar_doctor_disponible c") simp_all
  from seleccionar_doctor_Some [OF sd] assms(5) have d0: "d \<noteq> 0" by blast
  from assms(4) have "filter (\<lambda>b. estado b = LIBRE) (camas c) \<noteq> []"
    by (simp add: filter_empty_conv)
  then obtain bs where "seleccionar_cama_libre c = Some bs"
    using seleccionar_cama_None [of c] by (cases "seleccionar_cama_libre c") simp_all
  then obtain b s where sb: "seleccionar_cama_libre c = Some (b, s)" by (cases bs) simp
  from seleccionar_cama_Some [OF sb] assms(6) have b0: "b \<noteq> 0" by blast
  have oc: "fst (ocupar_recursos d b s c)"
    using assms(1,2) sd sb by (rule ocupar_seleccionados)
  have fila: "fila_visita fol ahora p d b s =
     Inr \<lparr>folio = fol, id_paciente = pac, v_id_doctor = d, id_trabajador = trab,
              v_id_sala = s, v_id_cama = b, origen_solicitud = orig,
              prioridad = (case p_prioridad p of None \<Rightarrow> 3 | Some n \<Rightarrow> n),
              motivo = (case p_motivo p of None \<Rightarrow> [] | Some m \<Rightarrow> m),
              fecha_hora_inicio = ahora, fecha_hora_cierre = None,
              v_estado = ABIERTA\<rparr>"
    using assms(7-12) by (simp add: fila_visita_def Let_def)
  have "crear_visita_body fol ahora p c =
       (Inr \<lparr>r_folio = fol, r_id_doctor = d, r_id_cama = b, r_id_sala = s\<rparr>,
        c\<lparr>doctores := update_where (\<lambda>r. id_doctor r = d \<and> disponible r)
                         (\<lambda>r. r\<lparr>disponible := False\<rparr>) (doctores c),
          camas := update_where (\<lambda>r. id_cama r = b \<and> id_sala r = s \<and> estado r = LIBRE)
                         (\<lambda>r. r\<lparr>estado := OCUPADA\<rparr>) (camas c),
          visitas := visitas c @
            [\<lparr>folio = fol, id_paciente = pac, v_id_doctor = d, id_trabajador = trab,
              v_id_sala = s, v_id_cama = b, origen_solicitud = orig,
              prioridad = (case p_prioridad p of None \<Rightarrow> 3 | Some n \<Rightarrow> n),
              motivo = (case p_motivo p of None \<Rightarrow> [] | Some m \<Rightarrow> m),
              fecha_hora_inicio = ahora, fecha_hora_cierre = None,
              v_estado = ABIERTA\<rparr>]\<rparr>)"
    using sd d0 sb b0 oc by (simp add: crear_visita_body_alt fila ocupar_snd_ok)
  then have "crear_visita_tx fol ahora p c =
       (Inr \<lparr>r_folio = fol, r_id_doctor = d, r_id_cama = b, r_id_sala = s\<rparr>,
        c\<lparr>doctores := update_where (\<lambda>r. id_doctor r = d \<and> disponible r)
                         (\<lambda>r. r\<lparr>disponible := False\<rparr>) (doctores c),
          camas := update_where (\<lambda>r. id_cama r = b \<and> id_sala r = s \<and> estado r = LIBRE)
                         (\<lambda>r. r\<lparr>estado := OCUPADA\<rparr>) (camas c),
          visitas := visitas c @
            [\<lparr>folio = fol, id_paciente = pac, v_id_doctor = d, id_trabajador = trab,
              v_id_sala = s, v_id_cama = b, origen_solicitud = orig,
              prioridad = (case p_prioridad p of None \<Rightarrow> 3 | Some n \<Rightarrow> n),
              motivo = (case p_motivo p of None \<Rightarrow> [] | Some m \<Rightarrow> m),
              fecha_hora_inicio = ahora, fecha_hora_cierre = None,
              v_estado = ABIERTA\<rparr>]\<rparr>)"
    by (rule crear_tx_ok)
  with sd sb show ?thesis by blast
qed

lemma sel_doctor_c_cero: "seleccionar_doctor_disponible c_cero = Some 0"
  by (simp add: seleccionar_doctor_disponible_def fetchone_order_by_def c_cero_def)

lemma sel_doctor_c_cama_cero: "seleccionar_doctor_disponible c_cama_cero = Some 1"
  by (simp add: seleccionar_doctor_disponible_def fetchone_order_by_def c_cama_cero_def)

lemma sel_cama_c_cama_cero: "seleccionar_cama_libre c_cama_cero = Some (0, 1)"
  by (simp add: seleccionar_cama_libre_def fetchone_order_by_def c_cama_cero_def)

text \<open>
  Claim C2 at a store whose only doctor has the identity 0. The doctor is active and
  available, a bed is free and the payload is complete, and \<^verbatim>\<open>crear_visita_tx\<close>
  fails with \<^verbatim>\<open>No hay doctor disponible\<close>: the test \<^verbatim>\<open>if not id_doctor\<close> takes the
  identity 0 for the absence of a doctor.
\<close>

theorem crear_visita_tx_doctor_cero:
  "filter (\<lambda>d. activo d \<and> disponible d) (doctores c_cero) =
     [\<lparr>id_doctor = 0, activo = True, disponible = True\<rparr>] \<and>
   filter (\<lambda>b. estado b = LIBRE) (camas c_cero) = [\<lparr>id_cama = 1, id_sala = 1, estado = LIBRE\<rparr>] \<and>
   p_id_paciente p_ok = Some 1 \<and> p_id_trabajador p_ok = Some 9 \<and>
   p_origen_solicitud p_ok = Some ''walk-in'' \<and>
   crear_visita_tx ''F1'' ''t0'' p_ok c_cero = (Inl NoHayDoctorDisponible, c_cero)"
proof -
  have "crear_visita_body ''F1'' ''t0'' p_ok c_cero = (Inl NoHayDoctorDisponible, c_cero)"
    by (simp add: crear_visita_body_def sel_doctor_c_cero)
  then have "crear_visita_tx ''F1'' ''t0'' p_ok c_cero = (Inl NoHayDoctorDisponible, c_cero)"
    by (rule crear_tx_fail)
  then show ?thesis by (simp add: c_cero_def p_ok_def)
qed

text \<open>
  When the two resource errors are raised: \<^verbatim>\<open>No hay doctor disponible\<close> exactly when
  the doctor query returns nothing or the identity 0, \<^verbatim>\<open>No hay camas libres\<close> exactly
  when a doctor with another identity was selected and the bed query returns nothing
  or a bed with the identity 0. In both cases the body has written nothing.
\<close>

lemma crear_visita_tx_resource_errors:
  "(fst (crear_visita_tx fol ahora p c) = Inl NoHayDoctorDisponible \<longleftrightarrow>
      seleccionar_doctor_disponible c = None \<or> seleccionar_doctor_disponible c = Some 0) \<and>
   (fst (crear_visita_tx fol ahora p c) = Inl NoHayCamasLibres \<longleftrightarrow>
      (\<exists>d. seleccionar_doctor_disponible c = Some d \<and> d \<noteq> 0) \<and>
      (seleccionar_cama_libre c = None \<or> (\<exists>s. seleccionar_cama_libre c = Some (0, s)))) \<and>
   (fst (crear_visita_tx fol ahora p c) = Inl NoHayDoctorDisponible \<or>
    fst (crear_visita_tx fol ahora p c) = Inl NoHayCamasLibres \<longrightarrow>
      crear_visita_body fol ahora p c = (fst (crear_visita_tx fol ahora p c), c) \<and>
      snd (crear_visita_tx fol ahora p c) = c)"
proof (cases rule: crear_visita_body_outcomes [where fol = fol and ahora = ahora and p = p and c = c])
  case no_doctor
  from no_doctor(2) have "crear_visita_tx fol ahora p c = (Inl NoHayDoctorDisponible, c)"
    by (rule crear_tx_fail)
  with no_doctor show ?thesis by auto
next
  case (no_cama d)
  from no_cama(4) have "crear_visita_tx fol ahora p c = (Inl NoHayCamasLibres, c)"
    by (rule crear_tx_fail)
  with no_cama show ?thesis by auto
next
  case (tomados d b s)
  from tomados(6) have "crear_visita_tx fol ahora p c = (Inl RecursosTomados, c)"
    by (rule crear_tx_fail)
  with tomados(1-4) show ?thesis by auto
next
  case (key_error d b s e)
  from fila_visita_Inl [OF key_error(6)] have e: "e = OverflowError \<or> (\<exists>k. e = KeyError k)" .
  from key_error(7) have "crear_visita_tx fol ahora p c = (Inl e, c)"
    by (rule crear_tx_fail)
  with e key_error(1-4) show ?thesis by auto
next
  case (ok d b s v)
  from ok(7) have "fst (crear_visita_tx fol ahora p c) =
      Inr \<lparr>r_folio = folio v, r_id_doctor = d, r_id_cama = b, r_id_sala = s\<rparr>"
    by (simp add: crear_tx_ok)
  with ok(1-4) show ?thesis by auto
qed

text \<open>
  Claim C6 at the store whose only doctor has the identity 0, and at a store whose
  only free bed has the identity 0:
  the errors \<^verbatim>\<open>No hay doctor disponible\<close> and \<^verbatim>\<open>No hay camas libres\<close> are raised
  although an active, available doctor and a free bed are there.
\<close>

theorem crear_visita_tx_errors_id_cero:
  "seleccionar_doctor_disponible c_cero = Some 0 \<and>
   fst (crear_visita_tx ''F1'' ''t0'' p_ok c_cero) = Inl NoHayDoctorDisponible \<and>
   filter (\<lambda>d. activo d \<and> disponible d) (doctores c_cero) \<noteq> [] \<and>
   seleccionar_cama_libre c_cama_cero = Some (0, 1) \<and>
   fst (crear_visita_tx ''F1'' ''t0'' p_ok c_cama_cero) = Inl NoHayCamasLibres \<and>
   filter (\<lambda>b. estado b = LIBRE) (camas c_cama_cero) \<noteq> []"
proof -
  have "crear_visita_body ''F1'' ''t0'' p_ok c_cero = (Inl NoHayDoctorDisponible, c_cero)"
    by (simp add: crear_visita_body_def sel_doctor_c_cero)
  then have a: "crear_visita_tx ''F1'' ''t0'' p_ok c_cero = (Inl NoHayDoctorDisponible, c_cero)"
    by (rule crear_tx_fail)
  have "crear_visita_body ''F1'' ''t0'' p_ok c_cama_cero = (Inl NoHayCamasLibres, c_cama_cero)"
    by (simp add: crear_visita_body_def sel_doctor_c_cama_cero sel_cama_c_cama_cero)
  then have b: "crear_visita_tx ''F1'' ''t0'' p_ok c_cama_cero = (Inl NoHayCamasLibres, c_cama_cero)"
    by (rule crear_tx_fail)
  have c: "filter (\<lambda>d. activo d \<and> disponible d) (doctores c_cero) \<noteq> []"
    by (simp add: c_cero_def)
  have d: "filter (\<lambda>b. estado b = LIBRE) (camas c_cama_cero) \<noteq> []"
    by (simp add: c_cama_cero_def)
  from a b c d sel_doctor_c_cero sel_cama_c_cama_cero show ?thesis by simp
qed

text \<open>
  Claim C8, as the code has it. A payload without \<^verbatim>\<open>id_paciente\<close>, \<^verbatim>\<open>id_trabajador\<close>
  or \<^verbatim>\<open>origen_solicitud\<close> makes \<^verbatim>\<open>crear_visita_tx\<close> fail and leaves the store as it
  was. Nothing validates the payload before the store is used, and the error is the
  one of the first step that fails: \<^verbatim>\<open>No hay doctor disponible\<close> when the doctor query
  gives no doctor, \<^verbatim>\<open>No hay camas libres\<close> when a doctor is selected and the bed query
  gives no bed, \<^verbatim>\<open>Recursos tomados, reintente\<close> when both are selected and a claim does
  not touch exactly one row, and, when both claims succeed, the \<^verbatim>\<open>KeyError\<close> of the
  first absent key, raised while the parameters of the \<^verbatim>\<open>INSERT\<close> are built, in a
  store that already holds the two claims, which the transaction then rolls back. (An
  identity 0 counts as no doctor and as no bed for \<^verbatim>\<open>crear_visita_tx\<close>.)
\<close>

theorem crear_visita_tx_missing_field:
  assumes "p_id_paciente p = None \<or> p_id_trabajador p = None \<or> p_origen_solicitud p = None"
  shows "(\<exists>e. crear_visita_tx fol ahora p c = (Inl e, c)) \<and>
     (seleccionar_doctor_disponible c = None \<or> seleccionar_doctor_disponible c = Some 0 \<longrightarrow>
        crear_visita_tx fol ahora p c = (Inl NoHayDoctorDisponible, c)) \<and>
     (\<forall>d. seleccionar_doctor_disponible c = Some d \<and> d \<noteq> 0 \<and>
        (seleccionar_cama_libre c = None \<or> (\<exists>s. seleccionar_cama_libre c = Some (0, s))) \<longrightarrow>
        crear_visita_tx fol ahora p c = (Inl NoHayCamasLibres, c)) \<and>
     (\<forall>d b s. seleccionar_doctor_disponible c = Some d \<and> d \<noteq> 0 \<and>
        seleccionar_cama_libre c = Some (b, s) \<and> b \<noteq> 0 \<and> \<not> fst (ocupar_recursos d b s c) \<longrightarrow>
        crear_visita_tx fol ahora p c = (Inl RecursosTomados, c)) \<and>
     (\<forall>d b s. seleccionar_doctor_disponible c = Some d \<and> d \<noteq> 0 \<and>
        seleccionar_cama_libre c = Some (b, s) \<and> b \<noteq> 0 \<and> fst (ocupar_recursos d b s c) \<longrightarrow>
        crear_visita_body fol ahora p c =
          (Inl (KeyError (if p_id_paciente p = None then ''id_paciente''
                          else if p_id_trabajador p = None then ''id_trabajador''
                          else ''origen_solicitud'')),
           snd (ocupar_recursos d b s c)) \<and>
        crear_visita_tx fol ahora p c =
          (Inl (KeyError (if p_id_paciente p = None then ''id_paciente''
                          else if p_id_trabajador p = None then ''id_trabajador''
                          else ''origen_solicitud'')), c))"
proof (intro conjI allI impI)
  show "\<exists>e. crear_visita_tx fol ahora p c = (Inl e, c)"
  proof (cases rule: crear_visita_body_outcomes
      [where fol = fol and ahora = ahora and p = p and c = c])
    case no_doctor
    from no_doctor(2) show ?thesis
      by (intro exI [of _ NoHayDoctorDisponible]) (rule crear_tx_fail)
  next
    case (no_cama d)
    from no_cama(4) show ?thesis
      by (intro exI [of _ NoHayCamasLibres]) (rule crear_tx_fail)
  next
    case (tomados d b s)
    from tomados(6) show ?thesis by (intro exI [of _ RecursosTomados]) (rule crear_tx_fail)
  next
    case (key_error d b s e)
    from key_error(7) show ?thesis by (intro exI [of _ e]) (rule crear_tx_fail)
  next
    case (ok d b s v)
    with fila_visita_falta [OF assms, of fol ahora d b s] show ?thesis by simp
  qed
next
  assume "seleccionar_doctor_disponible c = None \<or> seleccionar_doctor_disponible c = Some 0"
  then have "crear_visita_body fol ahora p c = (Inl NoHayDoctorDisponible, c)"
    by (auto simp: crear_visita_body_alt)
  then show "crear_visita_tx fol ahora p c = (Inl NoHayDoctorDisponible, c)"
    by (rule crear_tx_fail)
next
  fix d
  assume "seleccionar_doctor_disponible c = Some d \<and> d \<noteq> 0 \<and>
        (seleccionar_cama_libre c = None \<or> (\<exists>s. seleccionar_cama_libre c = Some (0, s)))"
  then have "crear_visita_body fol ahora p c = (Inl NoHayCamasLibres, c)"
    by (auto simp: crear_visita_body_alt)
  then show "crear_visita_tx fol ahora p c = (Inl NoHayCamasLibres, c)"
    by (rule crear_tx_fail)
next
  fix d b s
  assume "seleccionar_doctor_disponible c = Some d \<and> d \<noteq> 0 \<and>
        seleccionar_cama_libre c = Some (b, s) \<and> b \<noteq> 0 \<and> \<not> fst (ocupar_recursos d b s c)"
  then have "crear_visita_body fol ahora p c =
      (Inl RecursosTomados, snd (ocupar_recursos d b s c))"
    by (simp add: crear_visita_body_alt)
  then show "crear_visita_tx fol ahora p c = (Inl RecursosTomados, c)"
    by (rule crear_tx_fail)
next
  fix d b s
  assume sel: "seleccionar_doctor_disponible c = Some d \<and> d \<noteq> 0 \<and>
        seleccionar_cama_libre c = Some (b, s) \<and> b \<noteq> 0 \<and> fst (ocupar_recursos d b s c)"
  then show body: "crear_visita_body fol ahora p c =
          (Inl (KeyError (if p_id_paciente p = None then ''id_paciente''
                          else if p_id_trabajador p = None then ''id_trabajador''
                          else ''origen_solicitud'')),
           snd (ocupar_recursos d b s c))"
    by (simp add: crear_visita_body_alt fila_visita_falta [OF assms])
  then show "crear_visita_tx fol ahora p c =
          (Inl (KeyError (if p_id_paciente p = None then ''id_paciente''
                          else if p_id_trabajador p = None then ''id_trabajador''
                          else ''origen_solicitud'')), c)"
    by (rule crear_tx_fail)
qed

text \<open>
  A payload that has no \<^verbatim>\<open>id_paciente\<close>, in four stores: scenario A of the
  specification (both claims succeed), the empty store, a store with a doctor and no
  bed, and a store whose free bed is stored twice.
\<close>

theorem crear_visita_tx_missing_field_witness:
  "p_id_paciente p_sin_paciente = None \<and>
   seleccionar_doctor_disponible c_uno = Some 1 \<and> seleccionar_cama_libre c_uno = Some (1, 1) \<and>
   fst (ocupar_recursos 1 1 1 c_uno) \<and>
   crear_visita_body ''F1'' ''t0'' p_sin_paciente c_uno =
     (Inl (KeyError ''id_paciente''), snd (ocupar_recursos 1 1 1 c_uno)) \<and>
   crear_visita_tx ''F1'' ''t0'' p_sin_paciente c_uno = (Inl (KeyError ''id_paciente''), c_uno) \<and>
   seleccionar_doctor_disponible c_vacia = None \<and>
   crear_visita_tx ''F1'' ''t0'' p_sin_paciente c_vacia = (Inl NoHayDoctorDisponible, c_vacia) \<and>
   seleccionar_doctor_disponible c_sin_cama = Some 1 \<and> seleccionar_cama_libre c_sin_cama = None \<and>
   crear_visita_tx ''F1'' ''t0'' p_sin_paciente c_sin_cama = (Inl NoHayCamasLibres, c_sin_cama) \<and>
   seleccionar_doctor_disponible c_dup = Some 1 \<and> seleccionar_cama_libre c_dup = Some (1, 1) \<and>
   \<not> fst (ocupar_recursos 1 1 1 c_dup) \<and>
   crear_visita_tx ''F1'' ''t0'' p_sin_paciente c_dup = (Inl RecursosTomados, c_dup)"
proof -
  have h: "p_id_paciente p_sin_paciente = None \<or> p_id_trabajador p_sin_paciente = None \<or>
           p_origen_solicitud p_sin_paciente = None"
    by (simp add: p_sin_paciente_def)
  have n: "p_id_paciente p_sin_paciente = None" by (simp add: p_sin_paciente_def)
  have o: "fst (ocupar_recursos 1 1 1 c_uno)" by (simp add: ocupar_c_uno)
  have o2: "\<not> fst (ocupar_recursos 1 1 1 c_dup)" by (simp add: ocupar_c_dup)
  have v: "seleccionar_doctor_disponible c_vacia = None"
    by (simp add: seleccionar_doctor_disponible_def fetchone_order_by_def c_vacia_def)
  have sd: "seleccionar_doctor_disponible c_sin_cama = Some 1"
    by (simp add: seleccionar_doctor_disponible_def fetchone_order_by_def c_sin_cama_def)
  have sb: "seleccionar_cama_libre c_sin_cama = None"
    by (simp add: seleccionar_cama_libre_def fetchone_order_by_def c_sin_cama_def)
  from crear_visita_tx_missing_field [OF h, where c = c_uno and fol = "''F1''" and ahora = "''t0''"]
    n o sel_doctor_c_uno sel_cama_c_uno
  have 1: "crear_visita_body ''F1'' ''t0'' p_sin_paciente c_uno =
     (Inl (KeyError ''id_paciente''), snd (ocupar_recursos 1 1 1 c_uno)) \<and>
   crear_visita_tx ''F1'' ''t0'' p_sin_paciente c_uno = (Inl (KeyError ''id_paciente''), c_uno)"
    by simp
  from crear_visita_tx_missing_field [OF h, where c = c_vacia and fol = "''F1''" and ahora = "''t0''"] v
  have 2: "crear_visita_tx ''F1'' ''t0'' p_sin_paciente c_vacia = (Inl NoHayDoctorDisponible, c_vacia)"
    by simp
  from crear_visita_tx_missing_field [OF h, where c = c_sin_cama and fol = "''F1''" and ahora = "''t0''"] sd sb
  have 3: "crear_visita_tx ''F1'' ''t0'' p_sin_paciente c_sin_cama = (Inl NoHayCamasLibres, c_sin_cama)"
    by simp
  from crear_visita_tx_missing_field [OF h, where c = c_dup and fol = "''F1''" and ahora = "''t0''"]
    o2 sel_doctor_c_dup sel_cama_c_dup
  have 4: "crear_visita_tx ''F1'' ''t0'' p_sin_paciente c_dup = (Inl RecursosTomados, c_dup)"
    by simp
  from 1 2 3 4 n o o2 v sd sb sel_doctor_c_uno sel_cama_c_uno sel_doctor_c_dup sel_cama_c_dup
  show ?thesis by simp
qed

text \<open>
  Claim C8 as stated fails. With no doctor in the store the payload without
  \<^verbatim>\<open>id_paciente\<close> is answered with \<^verbatim>\<open>No hay doctor disponible\<close>, the result of a
  query, and not with an error about the payload; and in scenario A the \<^verbatim>\<open>KeyError\<close>
  is raised in a store where the doctor and the bed have already been written to.
\<close>

theorem crear_visita_tx_no_validation_counterexample:
  "crear_visita_tx ''F1'' ''t0'' p_sin_paciente c_vacia = (Inl NoHayDoctorDisponible, c_vacia) \<and>
   crear_visita_body ''F1'' ''t0'' p_sin_paciente c_uno =
     (Inl (KeyError ''id_paciente''),
      \<lparr>doctores = [\<lparr>id_doctor = 1, activo = True, disponible = False\<rparr>],
       camas = [\<lparr>id_cama = 1, id_sala = 1, estado = OCUPADA\<rparr>],
       visitas = []\<rparr>)"
proof -
  have "seleccionar_doctor_disponible c_vacia = None"
    by (simp add: seleccionar_doctor_disponible_def fetchone_order_by_def c_vacia_def)
  then have "crear_visita_body ''F1'' ''t0'' p_sin_paciente c_vacia =
      (Inl NoHayDoctorDisponible, c_vacia)"
    by (simp add: crear_visita_body_def)
  then have a: "crear_visita_tx ''F1'' ''t0'' p_sin_paciente c_vacia =
      (Inl NoHayDoctorDisponible, c_vacia)"
    by (rule crear_tx_fail)
  have b: "crear_visita_body ''F1'' ''t0'' p_sin_paciente c_uno =
     (Inl (KeyError ''id_paciente''),
      \<lparr>doctores = [\<lparr>id_doctor = 1, activo = True, disponible = False\<rparr>],
       camas = [\<lparr>id_cama = 1, id_sala = 1, estado = OCUPADA\<rparr>],
       visitas = []\<rparr>)"
    by (simp add: crear_visita_body_def sel_doctor_c_uno sel_cama_c_uno ocupar_c_uno
        fila_visita_def p_sin_paciente_def)
  from a b show ?thesis by simp
qed

subsection \<open>Closing a visit\<close>

lemma cerrar_fst:
  "fst (cerrar_visita_body ahora f c) =
     (if rowcount (\<lambda>v. folio v = f \<and> v_estado v = ABIERTA) (visitas c) \<noteq> 1
      then Inl VisitaNoEncontrada else Inr ())"
  by (simp add: cerrar_visita_body_def Let_def)

lemma cerrar_tx_fail:
  "rowcount (\<lambda>v. folio v = f \<and> v_estado v = ABIERTA) (visitas c) \<noteq> 1
   \<Longrightarrow> cerrar_visita_tx ahora f c = (Inl VisitaNoEncontrada, c)"
  by (simp add: cerrar_visita_tx_def tx_cases cerrar_fst)

lemma cerrar_tx_ok:
  "rowcount (\<lambda>v. folio v = f \<and> v_estado v = ABIERTA) (visitas c) = 1
   \<Longrightarrow> cerrar_visita_tx ahora f c = (Inr (), snd (cerrar_visita_body ahora f c))"
  by (simp add: cerrar_visita_tx_def tx_cases cerrar_fst)

lemma visitas_cerrar:
  "rowcount (\<lambda>v. folio v = f \<and> v_estado v = ABIERTA) (visitas c) = 1 \<Longrightarrow>
   visitas (snd (cerrar_visita_body ahora f c)) =
     update_where (\<lambda>v. folio v = f \<and> v_estado v = ABIERTA)
        (\<lambda>v. v\<lparr>v_estado := CERRADA, fecha_hora_cierre := Some ahora\<rparr>) (visitas c)"
  by (simp add: cerrar_visita_body_def Let_def)

lemma rowcount_after_close:
  "rowcount (\<lambda>v. folio v = f \<and> v_estado v = ABIERTA)
     (update_where (\<lambda>v. folio v = f \<and> v_estado v = ABIERTA)
        (\<lambda>v. v\<lparr>v_estado := CERRADA, fecha_hora_cierre := Some ahora\<rparr>) rows) = 0"
  by (rule rowcount_update_where_0) simp

lemma subquery_folio_unique:
  assumes "distinct (map folio (visitas c))" and "v \<in> set (visitas c)"
  shows "subquery_folio col (folio v) c = Some (col v)"
  using filter_distinct_key [OF assms] by (simp add: subquery_folio_def)

lemma subquery_folio_map:
  assumes "\<And>x. folio (g x) = folio x" and "\<And>x. col (g x) = col x"
  shows "subquery_folio col f (c\<lparr>visitas := map g (visitas c)\<rparr>) = subquery_folio col f c"
proof -
  have "filter (\<lambda>v. folio v = f) (map g (visitas c)) = map g (filter (\<lambda>v. folio v = f) (visitas c))"
    by (simp add: filter_map o_def assms(1))
  then show ?thesis
    by (cases "filter (\<lambda>v. folio v = f) (visitas c)") (simp_all add: subquery_folio_def assms(2))
qed

lemma subquery_folio_doctores [simp]:
  "subquery_folio col f (c\<lparr>doctores := ds\<rparr>) = subquery_folio col f c"
  by (simp add: subquery_folio_def)

lemma subquery_folio_cerrada:
  assumes "\<And>x t. col (x\<lparr>v_estado := CERRADA, fecha_hora_cierre := t\<rparr>) = col x"
  shows "subquery_folio col f
     (c\<lparr>visitas := update_where cond
         (\<lambda>v. v\<lparr>v_estado := CERRADA, fecha_hora_cierre := Some ahora\<rparr>) (visitas c)\<rparr>) =
   subquery_folio col f c"
  unfolding update_where_def
  by (rule subquery_folio_map) (simp_all add: assms)

lemma cerrar_snd_ok:
  assumes "rowcount (\<lambda>v. folio v = f \<and> v_estado v = ABIERTA) (visitas c) = 1"
  shows "snd (cerrar_visita_body ahora f c) =
     c\<lparr>visitas := update_where (\<lambda>v. folio v = f \<and> v_estado v = ABIERTA)
          (\<lambda>v. v\<lparr>v_estado := CERRADA, fecha_hora_cierre := Some ahora\<rparr>) (visitas c),
       doctores := update_where (\<lambda>r. Some (id_doctor r) = subquery_folio v_id_doctor f c)
          (\<lambda>r. r\<lparr>disponible := True\<rparr>) (doctores c),
       camas := update_where (\<lambda>r. Some (id_cama r) = subquery_folio v_id_cama f c \<and>
                                  Some (id_sala r) = subquery_folio v_id_sala f c)
          (\<lambda>r. r\<lparr>estado := LIBRE\<rparr>) (camas c)\<rparr>"
  using assms
  by (simp add: cerrar_visita_body_def Let_def subquery_folio_cerrada)

lemma cerrar_tx_estado:
  assumes "distinct (map folio (visitas c))" and "v \<in> set (visitas c)"
    and "folio v = f" and "v_estado v = ABIERTA"
  shows "cerrar_visita_tx ahora f c =
     (Inr (),
      c\<lparr>visitas := update_where (\<lambda>w. folio w = f \<and> v_estado w = ABIERTA)
          (\<lambda>w. w\<lparr>v_estado := CERRADA, fecha_hora_cierre := Some ahora\<rparr>) (visitas c),
        doctores := update_where (\<lambda>r. id_doctor r = v_id_doctor v)
          (\<lambda>r. r\<lparr>disponible := True\<rparr>) (doctores c),
        camas := update_where (\<lambda>r. id_cama r = v_id_cama v \<and> id_sala r = v_id_sala v)
          (\<lambda>r. r\<lparr>estado := LIBRE\<rparr>) (camas c)\<rparr>)"
proof -
  have one: "rowcount (\<lambda>w. folio w = f \<and> v_estado w = ABIERTA) (visitas c) = 1"
    using rowcount_distinct_key [OF assms(1,2), of "\<lambda>w. v_estado w = ABIERTA"] assms(3,4)
    by simp
  have sq: "subquery_folio col f c = Some (col v)" for col :: "visita \<Rightarrow> int"
    using subquery_folio_unique [OF assms(1,2)] assms(3) by simp
  show ?thesis
    unfolding cerrar_tx_ok [OF one] by (simp add: cerrar_snd_ok [OF one] sq)
qed

lemma camas_liberadas:
  "\<forall>x\<in>set (update_where (\<lambda>r. id_cama r = b \<and> id_sala r = s)
                (\<lambda>r. r\<lparr>estado := LIBRE\<rparr>) bs). id_cama x = b \<and> id_sala x = s \<longrightarrow> estado x = LIBRE"
  by (rule update_where_Ball
        [where Q = "\<lambda>x. id_cama x = b \<and> id_sala x = s \<longrightarrow> estado x = LIBRE"])
     (simp, blast)

text \<open>
  Claim C3. In a store whose folios are unique, closing the folio of an open visit
  succeeds. Afterwards that visit is closed with the time of the call as its closing
  time (and no visit with the folio is anything else), every row of its doctor is
  available and every row of its bed in its room is free; the tables of doctors and
  beds are otherwise unchanged.
\<close>

theorem cerrar_visita_tx_releases:
  assumes "distinct (map folio (visitas c))" and "v \<in> set (visitas c)"
    and "folio v = f" and "v_estado v = ABIERTA"
  shows "fst (cerrar_visita_tx ahora f c) = Inr () \<and>
     v\<lparr>v_estado := CERRADA, fecha_hora_cierre := Some ahora\<rparr>
        \<in> set (visitas (snd (cerrar_visita_tx ahora f c))) \<and>
     (\<forall>w\<in>set (visitas (snd (cerrar_visita_tx ahora f c))). folio w = f \<longrightarrow>
        v_estado w = CERRADA \<and> fecha_hora_cierre w = Some ahora) \<and>
     doctores (snd (cerrar_visita_tx ahora f c)) =
       update_where (\<lambda>r. id_doctor r = v_id_doctor v) (\<lambda>r. r\<lparr>disponible := True\<rparr>) (doctores c) \<and>
     (\<forall>r\<in>set (doctores (snd (cerrar_visita_tx ahora f c))).
        id_doctor r = v_id_doctor v \<longrightarrow> disponible r) \<and>
     camas (snd (cerrar_visita_tx ahora f c)) =
       update_where (\<lambda>r. id_cama r = v_id_cama v \<and> id_sala r = v_id_sala v)
         (\<lambda>r. r\<lparr>estado := LIBRE\<rparr>) (camas c) \<and>
     (\<forall>r\<in>set (camas (snd (cerrar_visita_tx ahora f c))).
        id_cama r = v_id_cama v \<and> id_sala r = v_id_sala v \<longrightarrow> estado r = LIBRE)"
proof -
  let ?cond = "\<lambda>w. folio w = f \<and> v_estado w = ABIERTA"
  let ?upd = "\<lambda>w. w\<lparr>v_estado := CERRADA, fecha_hora_cierre := Some ahora\<rparr>"
  have one: "rowcount ?cond (visitas c) = 1"
    using rowcount_distinct_key [OF assms(1,2), of "\<lambda>w. v_estado w = ABIERTA"] assms(3,4)
    by simp
  have sq: "subquery_folio col f c = Some (col v)" for col :: "visita \<Rightarrow> int"
    using subquery_folio_unique [OF assms(1,2)] assms(3) by simp
  have tx: "cerrar_visita_tx ahora f c = (Inr (), snd (cerrar_visita_body ahora f c))"
    using one by (rule cerrar_tx_ok)
  have st: "snd (cerrar_visita_tx ahora f c) =
     c\<lparr>visitas := update_where ?cond ?upd (visitas c),
       doctores := update_where (\<lambda>r. id_doctor r = v_id_doctor v)
          (\<lambda>r. r\<lparr>disponible := True\<rparr>) (doctores c),
       camas := update_where (\<lambda>r. id_cama r = v_id_cama v \<and> id_sala r = v_id_sala v)
          (\<lambda>r. r\<lparr>estado := LIBRE\<rparr>) (camas c)\<rparr>"
    unfolding tx by (simp add: cerrar_snd_ok [OF one] sq)
  have mem: "?upd v \<in> set (update_where ?cond ?upd (visitas c))"
    using assms(2,3,4) by (intro update_where_mem) simp_all
  have all: "\<forall>w\<in>set (update_where ?cond ?upd (visitas c)). folio w = f \<longrightarrow>
        v_estado w = CERRADA \<and> fecha_hora_cierre w = Some ahora"
  proof (rule update_where_Ball [where Q = "\<lambda>w. folio w = f \<longrightarrow>
        v_estado w = CERRADA \<and> fecha_hora_cierre w = Some ahora"], rule ballI)
    fix x assume x: "x \<in> set (visitas c)"
    show "folio (if ?cond x then ?upd x else x) = f \<longrightarrow>
        v_estado (if ?cond x then ?upd x else x) = CERRADA \<and>
        fecha_hora_cierre (if ?cond x then ?upd x else x) = Some ahora"
    proof (cases "folio x = f")
      case True
      with assms(3) have "folio x = folio v" by simp
      with distinct_key_eq [OF assms(1) x assms(2)] have "x = v" by simp
      with assms(3,4) show ?thesis by simp
    next
      case False
      then show ?thesis by simp
    qed
  qed
  show ?thesis
    unfolding st
    using tx mem all doctores_compensados [of "v_id_doctor v" "doctores c"]
      camas_liberadas [of "v_id_cama v" "v_id_sala v" "camas c"]
    by simp
qed

text \<open>
  Scenario D of the specification: the open visit \<open>F1\<close> of doctor 1 in bed 1 of room 1
  is closed.
\<close>

theorem cerrar_visita_tx_releases_witness:
  "distinct (map folio (visitas c_abierta)) \<and> v_f1 \<in> set (visitas c_abierta) \<and>
   folio v_f1 = ''F1'' \<and> v_estado v_f1 = ABIERTA \<and>
   fst (cerrar_visita_tx ''t1'' ''F1'' c_abierta) = Inr () \<and>
   v_f1\<lparr>v_estado := CERRADA, fecha_hora_cierre := Some ''t1''\<rparr>
      \<in> set (visitas (snd (cerrar_visita_tx ''t1'' ''F1'' c_abierta))) \<and>
   doctores (snd (cerrar_visita_tx ''t1'' ''F1'' c_abierta)) =
     [\<lparr>id_doctor = 1, activo = True, disponible = True\<rparr>] \<and>
   camas (snd (cerrar_visita_tx ''t1'' ''F1'' c_abierta)) =
     [\<lparr>id_cama = 1, id_sala = 1, estado = LIBRE\<rparr>]"
proof -
  have h1: "distinct (map folio (visitas c_abierta))" by (simp add: c_abierta_def)
  have h2: "v_f1 \<in> set (visitas c_abierta)" by (simp add: c_abierta_def)
  have h3: "folio v_f1 = ''F1''" by (simp add: v_f1_def)
  have h4: "v_estado v_f1 = ABIERTA" by (simp add: v_f1_def)
  have d: "update_where (\<lambda>r. id_doctor r = v_id_doctor v_f1) (\<lambda>r. r\<lparr>disponible := True\<rparr>)
      (doctores c_abierta) = [\<lparr>id_doctor = 1, activo = True, disponible = True\<rparr>]"
    by (simp add: update_where_def c_abierta_def v_f1_def)
  have b: "update_where (\<lambda>r. id_cama r = v_id_cama v_f1 \<and> id_sala r = v_id_sala v_f1)
      (\<lambda>r. r\<lparr>estado := LIBRE\<rparr>) (camas c_abierta) = [\<lparr>id_cama = 1, id_sala = 1, estado = LIBRE\<rparr>]"
    by (simp add: update_where_def c_abierta_def v_f1_def)
  from cerrar_visita_tx_releases [OF h1 h2 h3 h4, of "''t1''"] h1 h2 h3 h4 d b
  show ?thesis by simp
qed

text \<open>
  Claim C4. Closing a folio that has no open visit fails with the error of
  \<^verbatim>\<open>cerrar_visita_tx\<close> and leaves the whole store as it was; in particular, after a
  close that succeeded, a second close of the same folio fails and changes nothing.
\<close>

theorem cerrar_visita_tx_idempotent_safe:
  "(\<not> (\<exists>v\<in>set (visitas c). folio v = f \<and> v_estado v = ABIERTA) \<longrightarrow>
      cerrar_visita_tx ahora f c = (Inl VisitaNoEncontrada, c)) \<and>
   (fst (cerrar_visita_tx ahora f c) = Inr () \<longrightarrow>
      cerrar_visita_tx ahora' f (snd (cerrar_visita_tx ahora f c)) =
        (Inl VisitaNoEncontrada, snd (cerrar_visita_tx ahora f c)))"
proof (intro conjI impI)
  assume "\<not> (\<exists>v\<in>set (visitas c). folio v = f \<and> v_estado v = ABIERTA)"
  then have "rowcount (\<lambda>v. folio v = f \<and> v_estado v = ABIERTA) (visitas c) = 0"
    by (simp add: rowcount_0_iff)
  then show "cerrar_visita_tx ahora f c = (Inl VisitaNoEncontrada, c)"
    by (simp add: cerrar_tx_fail)
next
  assume ok: "fst (cerrar_visita_tx ahora f c) = Inr ()"
  have one: "rowcount (\<lambda>v. folio v = f \<and> v_estado v = ABIERTA) (visitas c) = 1"
  proof (rule ccontr)
    assume "rowcount (\<lambda>v. folio v = f \<and> v_estado v = ABIERTA) (visitas c) \<noteq> 1"
    then have "cerrar_visita_tx ahora f c = (Inl VisitaNoEncontrada, c)"
      by (rule cerrar_tx_fail)
    with ok show False by simp
  qed
  let ?c' = "snd (cerrar_visita_tx ahora f c)"
  have "visitas ?c' = update_where (\<lambda>v. folio v = f \<and> v_estado v = ABIERTA)
        (\<lambda>v. v\<lparr>v_estado := CERRADA, fecha_hora_cierre := Some ahora\<rparr>) (visitas c)"
    using one by (simp add: cerrar_tx_ok visitas_cerrar)
  then have "rowcount (\<lambda>v. folio v = f \<and> v_estado v = ABIERTA) (visitas ?c') = 0"
    by (simp add: rowcount_after_close)
  then show "cerrar_visita_tx ahora' f ?c' = (Inl VisitaNoEncontrada, ?c')"
    by (simp add: cerrar_tx_fail)
qed

text \<open>
  On the store with the single open visit \<open>F1\<close>: folio \<open>F2\<close> is unknown, and \<open>F1\<close>
  is closed twice.
\<close>

theorem cerrar_visita_tx_idempotent_safe_witness:
  "(\<not> (\<exists>v\<in>set (visitas c_demo). folio v = ''F2'' \<and> v_estado v = ABIERTA)) \<and>
   cerrar_visita_tx ''t1'' ''F2'' c_demo = (Inl VisitaNoEncontrada, c_demo) \<and>
   fst (cerrar_visita_tx ''t1'' ''F1'' c_demo) = Inr () \<and>
   cerrar_visita_tx ''t2'' ''F1'' (snd (cerrar_visita_tx ''t1'' ''F1'' c_demo)) =
     (Inl VisitaNoEncontrada, snd (cerrar_visita_tx ''t1'' ''F1'' c_demo))"
proof -
  have a: "\<not> (\<exists>v\<in>set (visitas c_demo). folio v = ''F2'' \<and> v_estado v = ABIERTA)"
    by (simp add: c_demo_def)
  have "rowcount (\<lambda>v. folio v = ''F1'' \<and> v_estado v = ABIERTA) (visitas c_demo) = 1"
    by (simp add: rowcount_def c_demo_def)
  then have b: "fst (cerrar_visita_tx ''t1'' ''F1'' c_demo) = Inr ()"
    by (simp add: cerrar_tx_ok)
  show ?thesis
    using a b cerrar_visita_tx_idempotent_safe [of c_demo "''F2''" "''t1''" "''t2''"]
      cerrar_visita_tx_idempotent_safe [of c_demo "''F1''" "''t1''" "''t2''"]
    by blast
qed

text \<open>
  Claim C10. When exactly one open visit has the folio, closing succeeds whatever the
  tables of doctors and beds hold: the row counts of the two release updates are never
  looked at, so a release that matches no row is not an error.
\<close>

theorem cerrar_visita_tx_ignores_release_counts:
  assumes "rowcount (\<lambda>v. folio v = f \<and> v_estado v = ABIERTA) (visitas c) = 1"
  shows "fst (cerrar_visita_tx ahora f (c\<lparr>doctores := ds, camas := bs\<rparr>)) = Inr ()"
  using assms by (simp add: cerrar_tx_ok)

text \<open>
  With empty tables of doctors and beds both release updates match no row, and the
  close succeeds.
\<close>

theorem cerrar_visita_tx_ignores_release_counts_witness:
  "rowcount (\<lambda>v. folio v = ''F1'' \<and> v_estado v = ABIERTA) (visitas c_demo) = 1 \<and>
   rowcount (\<lambda>r. Some (id_doctor r) = subquery_folio v_id_doctor ''F1'' c_demo) [] = 0 \<and>
   fst (cerrar_visita_tx ''t1'' ''F1'' (c_demo\<lparr>doctores := [], camas := []\<rparr>)) = Inr ()"
proof -
  have h: "rowcount (\<lambda>v. folio v = ''F1'' \<and> v_estado v = ABIERTA) (visitas c_demo) = 1"
    by (simp add: rowcount_def c_demo_def)
  show ?thesis
    using h cerrar_visita_tx_ignores_release_counts [OF h, of "''t1''" "[]" "[]"]
    by (simp add: rowcount_def)
qed

subsection \<open>Conservation of doctors and beds\<close>

lemma coherente_conservacion:
  assumes "coherente c"
  shows "conservacion c"
proof -
  from assms have d: "distinct (map id_doctor (doctores c))"
    and b: "distinct (map (\<lambda>x. (id_sala x, id_cama x)) (camas c))"
    and sd: "set (map id_doctor (filter (\<lambda>r. \<not> disponible r) (doctores c))) =
       set (map v_id_doctor (abiertas c))"
    and sb: "set (map (\<lambda>x. (id_sala x, id_cama x)) (filter (\<lambda>x. estado x = OCUPADA) (camas c))) =
       set (map (\<lambda>v. (v_id_sala v, v_id_cama v)) (abiertas c))"
    by (simp_all add: coherente_def)
  have "rowcount (\<lambda>r. \<not> disponible r) (doctores c) =
       length (remdups (map v_id_doctor (abiertas c)))"
    unfolding rowcount_card_keys [OF d] sd by (simp add: length_remdups_card_conv)
  moreover have "rowcount (\<lambda>x. estado x = OCUPADA) (camas c) =
       length (remdups (map (\<lambda>v. (v_id_sala v, v_id_cama v)) (abiertas c)))"
    unfolding rowcount_card_keys [OF b] sb by (simp add: length_remdups_card_conv)
  ultimately show ?thesis by (simp add: conservacion_def)
qed

lemma abiertas_doctores_camas [simp]:
  "abiertas (c\<lparr>doctores := ds\<rparr>) = abiertas c" "abiertas (c\<lparr>camas := bs\<rparr>) = abiertas c"
  by (simp_all add: abiertas_def)

lemma abiertas_append:
  "v_estado v = ABIERTA \<Longrightarrow> abiertas (c\<lparr>visitas := visitas c @ [v]\<rparr>) = abiertas c @ [v]"
  by (simp add: abiertas_def)

lemma abiertas_cerrar:
  "filter (\<lambda>w. v_estado w = ABIERTA)
     (update_where (\<lambda>w. folio w = f \<and> v_estado w = ABIERTA)
        (\<lambda>w. w\<lparr>v_estado := CERRADA, fecha_hora_cierre := t\<rparr>) vs) =
   filter (\<lambda>w. folio w \<noteq> f) (filter (\<lambda>w. v_estado w = ABIERTA) vs)"
  by (induction vs) (simp_all add: update_where_def)

lemma crear_visita_tx_coherente:
  assumes coh: "coherente c" and fresh: "fol \<notin> set (map folio (visitas c))"
  shows "coherente (snd (crear_visita_tx fol ahora p c))"
proof (cases rule: crear_visita_body_outcomes [where fol = fol and ahora = ahora and p = p and c = c])
  case no_doctor
  from crear_tx_fail [OF no_doctor(2)] coh show ?thesis by simp
next
  case (no_cama d)
  from crear_tx_fail [OF no_cama(4)] coh show ?thesis by simp
next
  case (tomados d b s)
  from crear_tx_fail [OF tomados(6)] coh show ?thesis by simp
next
  case (key_error d b s e)
  from crear_tx_fail [OF key_error(7)] coh show ?thesis by simp
next
  case (ok d b s v)
  let ?kb = "\<lambda>x::cama. (id_sala x, id_cama x)"
  let ?kv = "\<lambda>v::visita. (v_id_sala v, v_id_cama v)"
  define D' where "D' = update_where (\<lambda>r. id_doctor r = d \<and> disponible r)
                      (\<lambda>r. r\<lparr>disponible := False\<rparr>) (doctores c)"
  define B' where "B' = update_where (\<lambda>r. id_cama r = b \<and> id_sala r = s \<and> estado r = LIBRE)
                      (\<lambda>r. r\<lparr>estado := OCUPADA\<rparr>) (camas c)"
  have st: "snd (crear_visita_tx fol ahora p c) = c\<lparr>doctores := D', camas := B', visitas := visitas c @ [v]\<rparr>"
    unfolding D'_def B'_def using ok(5,7) by (rule crear_tx_estado_ok)
  from coh have c1: "distinct (map id_doctor (doctores c))"
    and c2: "distinct (map ?kb (camas c))"
    and c3: "distinct (map folio (visitas c))"
    and c4: "distinct (map v_id_doctor (abiertas c))"
    and c5: "distinct (map ?kv (abiertas c))"
    and c6: "set (map id_doctor (filter (\<lambda>r. \<not> disponible r) (doctores c))) =
             set (map v_id_doctor (abiertas c))"
    and c7: "set (map ?kb (filter (\<lambda>x. estado x = OCUPADA) (camas c))) = set (map ?kv (abiertas c))"
    by (simp_all add: coherente_def)
  from seleccionar_doctor_Some [OF ok(1)]
  obtain r where r: "r \<in> set (doctores c)" "id_doctor r = d" "disponible r" by blast
  from seleccionar_cama_Some [OF ok(3)]
  obtain x where x: "x \<in> set (camas c)" "id_cama x = b" "id_sala x = s" "estado x = LIBRE"
    by blast
  have v: "folio v = fol" "v_id_doctor v = d" "v_id_cama v = b" "v_id_sala v = s"
    "v_estado v = ABIERTA"
    using fila_visita_Inr [OF ok(6)] by simp_all
  have ab: "abiertas (c\<lparr>doctores := D', camas := B', visitas := visitas c @ [v]\<rparr>) = abiertas c @ [v]"
    using v(5) by (simp add: abiertas_def)
  have n1: "distinct (map id_doctor D')"
    unfolding D'_def using c1 by (simp add: map_key_update_where)
  have n2: "distinct (map ?kb B')"
    unfolding B'_def using c2 by (simp add: map_key_update_where)
  have n3: "distinct (map folio (visitas c @ [v]))"
    using c3 fresh v(1) by simp
  have nd: "d \<notin> set (map id_doctor (filter (\<lambda>r. \<not> disponible r) (doctores c)))"
  proof
    assume "d \<in> set (map id_doctor (filter (\<lambda>r. \<not> disponible r) (doctores c)))"
    then obtain r' where r': "r' \<in> set (doctores c)" "\<not> disponible r'" "id_doctor r' = d"
      by auto
    from distinct_key_eq [OF c1 r'(1) r(1)] r'(3) r(2) have "r' = r" by simp
    with r'(2) r(3) show False by simp
  qed
  have nb: "(s, b) \<notin> set (map ?kb (filter (\<lambda>x. estado x = OCUPADA) (camas c)))"
  proof
    assume "(s, b) \<in> set (map ?kb (filter (\<lambda>x. estado x = OCUPADA) (camas c)))"
    then obtain x' where x': "x' \<in> set (camas c)" "estado x' = OCUPADA" "?kb x' = (s, b)"
      by auto
    from distinct_key_eq [OF c2 x'(1) x(1)] x'(3) x(2,3) have "x' = x" by simp
    with x'(2) x(4) show False by simp
  qed
  have kd: "set (map id_doctor (filter (\<lambda>r. \<not> disponible r) D')) =
            insert d (set (map id_doctor (filter (\<lambda>r. \<not> disponible r) (doctores c))))"
    using claim_keys [where k = id_doctor and held = "\<lambda>r. \<not> disponible r"
        and f = "\<lambda>r. r\<lparr>disponible := False\<rparr>" and clave = d and r = r and rows = "doctores c"]
      r by (simp add: D'_def)
  have "set (map ?kb (filter (\<lambda>x. estado x = OCUPADA)
           (update_where (\<lambda>x. ?kb x = (s, b) \<and> \<not> estado x = OCUPADA)
              (\<lambda>r. r\<lparr>estado := OCUPADA\<rparr>) (camas c)))) =
        insert (s, b) (set (map ?kb (filter (\<lambda>x. estado x = OCUPADA) (camas c))))"
    using x by (intro claim_keys [where r = x]) simp_all
  then have kb: "set (map ?kb (filter (\<lambda>x. estado x = OCUPADA) B')) =
            insert (s, b) (set (map ?kb (filter (\<lambda>x. estado x = OCUPADA) (camas c))))"
    unfolding B'_def cond_cama_libre .
  have n4: "distinct (map v_id_doctor (abiertas c @ [v]))"
    using c4 nd c6 v(2) by simp
  have n5: "distinct (map ?kv (abiertas c @ [v]))"
    using c5 nb c7 v(3,4) by simp
  have n6: "set (map id_doctor (filter (\<lambda>r. \<not> disponible r) D')) =
            set (map v_id_doctor (abiertas c @ [v]))"
    unfolding kd c6 using v(2) by simp
  have n7: "set (map ?kb (filter (\<lambda>x. estado x = OCUPADA) B')) = set (map ?kv (abiertas c @ [v]))"
    unfolding kb c7 using v(3,4) by simp
  show ?thesis
    unfolding st coherente_def ab
    using n1 n2 n3 n4 n5 n6 n7 by simp
qed

lemma cerrar_visita_tx_coherente:
  assumes coh: "coherente c"
  shows "coherente (snd (cerrar_visita_tx ahora f c))"
proof (cases "rowcount (\<lambda>w. folio w = f \<and> v_estado w = ABIERTA) (visitas c) = 1")
  case False
  from cerrar_tx_fail [OF False] coh show ?thesis by simp
next
  case True
  let ?kb = "\<lambda>x::cama. (id_sala x, id_cama x)"
  let ?kv = "\<lambda>v::visita. (v_id_sala v, v_id_cama v)"
  from coh have c1: "distinct (map id_doctor (doctores c))"
    and c2: "distinct (map ?kb (camas c))"
    and c3: "distinct (map folio (visitas c))"
    and c4: "distinct (map v_id_doctor (abiertas c))"
    and c5: "distinct (map ?kv (abiertas c))"
    and c6: "set (map id_doctor (filter (\<lambda>r. \<not> disponible r) (doctores c))) =
             set (map v_id_doctor (abiertas c))"
    and c7: "set (map ?kb (filter (\<lambda>x. estado x = OCUPADA) (camas c))) = set (map ?kv (abiertas c))"
    by (simp_all add: coherente_def)
  from rowcount_1_ex [OF True]
  obtain v where v: "v \<in> set (visitas c)" "folio v = f" "v_estado v = ABIERTA" by blast
  define V' where "V' = update_where (\<lambda>w. folio w = f \<and> v_estado w = ABIERTA)
          (\<lambda>w. w\<lparr>v_estado := CERRADA, fecha_hora_cierre := Some ahora\<rparr>) (visitas c)"
  define D' where "D' = update_where (\<lambda>r. id_doctor r = v_id_doctor v)
          (\<lambda>r. r\<lparr>disponible := True\<rparr>) (doctores c)"
  define B' where "B' = update_where (\<lambda>r. id_cama r = v_id_cama v \<and> id_sala r = v_id_sala v)
          (\<lambda>r. r\<lparr>estado := LIBRE\<rparr>) (camas c)"
  have st: "snd (cerrar_visita_tx ahora f c) = c\<lparr>visitas := V', doctores := D', camas := B'\<rparr>"
    unfolding V'_def D'_def B'_def cerrar_tx_estado [OF c3 v] by simp
  have ab: "abiertas (c\<lparr>visitas := V', doctores := D', camas := B'\<rparr>) =
            filter (\<lambda>w. folio w \<noteq> f) (abiertas c)"
    by (simp add: abiertas_def V'_def abiertas_cerrar)
  have vab: "v \<in> set (abiertas c)" using v(1,3) by (simp add: abiertas_def)
  have q: "folio w \<noteq> f \<longleftrightarrow> w \<noteq> v" if "w \<in> set (abiertas c)" for w
  proof -
    from that have "w \<in> set (visitas c)" by (simp add: abiertas_def)
    from distinct_key_eq [OF c3 this v(1)] v(2) show ?thesis by auto
  qed
  have n1: "distinct (map id_doctor D')"
    unfolding D'_def using c1 by (simp add: map_key_update_where)
  have n2: "distinct (map ?kb B')"
    unfolding B'_def using c2 by (simp add: map_key_update_where)
  have n3: "distinct (map folio V')"
    unfolding V'_def using c3 by (simp add: map_key_update_where)
  have n4: "distinct (map v_id_doctor (filter (\<lambda>w. folio w \<noteq> f) (abiertas c)))"
    using c4 by (rule distinct_map_filter)
  have n5: "distinct (map ?kv (filter (\<lambda>w. folio w \<noteq> f) (abiertas c)))"
    using c5 by (rule distinct_map_filter)
  have kd: "set (map id_doctor (filter (\<lambda>r. \<not> disponible r) D')) =
            set (map id_doctor (filter (\<lambda>r. \<not> disponible r) (doctores c))) - {v_id_doctor v}"
    unfolding D'_def by (rule release_keys) simp_all
  have "set (map ?kb (filter (\<lambda>x. estado x = OCUPADA)
           (update_where (\<lambda>x. ?kb x = (v_id_sala v, v_id_cama v))
              (\<lambda>r. r\<lparr>estado := LIBRE\<rparr>) (camas c)))) =
        set (map ?kb (filter (\<lambda>x. estado x = OCUPADA) (camas c))) - {(v_id_sala v, v_id_cama v)}"
    by (rule release_keys) simp_all
  then have kb: "set (map ?kb (filter (\<lambda>x. estado x = OCUPADA) B')) =
        set (map ?kb (filter (\<lambda>x. estado x = OCUPADA) (camas c))) - {(v_id_sala v, v_id_cama v)}"
    unfolding B'_def cond_cama_clave .
  have vd: "set (map v_id_doctor (filter (\<lambda>w. folio w \<noteq> f) (abiertas c))) =
            set (map v_id_doctor (abiertas c)) - {v_id_doctor v}"
    using c4 vab q by (rule remove_key)
  have vb: "set (map ?kv (filter (\<lambda>w. folio w \<noteq> f) (abiertas c))) =
            set (map ?kv (abiertas c)) - {?kv v}"
    using c5 vab q by (rule remove_key)
  have n6: "set (map id_doctor (filter (\<lambda>r. \<not> disponible r) D')) =
            set (map v_id_doctor (filter (\<lambda>w. folio w \<noteq> f) (abiertas c)))"
    unfolding kd vd c6 ..
  have n7: "set (map ?kb (filter (\<lambda>x. estado x = OCUPADA) B')) =
            set (map ?kv (filter (\<lambda>w. folio w \<noteq> f) (abiertas c)))"
    unfolding kb vb c7 ..
  show ?thesis
    unfolding st coherente_def ab
    using n1 n2 n3 n4 n5 n6 n7 by simp
qed

lemma coherente_c_dos: "coherente c_dos"
  by (simp add: coherente_def abiertas_def c_dos_def v_f1_def)

lemma crear_c_dos:
  "fst (crear_visita_tx ''F2'' ''t1'' p_ok c_dos) =
     Inr \<lparr>r_folio = ''F2'', r_id_doctor = 2, r_id_cama = 2, r_id_sala = 1\<rparr>"
proof -
  have sd: "seleccionar_doctor_disponible c_dos = Some 2"
    by (simp add: seleccionar_doctor_disponible_def fetchone_order_by_def c_dos_def)
  have sb: "seleccionar_cama_libre c_dos = Some (2, 1)"
    by (simp add: seleccionar_cama_libre_def fetchone_order_by_def c_dos_def)
  have oc: "fst (ocupar_recursos 2 2 1 c_dos)"
    by (simp add: ocupar_fst rowcount_def c_dos_def)
  have "fst (crear_visita_body ''F2'' ''t1'' p_ok c_dos) =
     Inr \<lparr>r_folio = ''F2'', r_id_doctor = 2, r_id_cama = 2, r_id_sala = 1\<rparr>"
    using oc by (simp add: crear_visita_body_alt sd sb fila_visita_def Let_def sqlite_integer_def p_ok_def)
  then show ?thesis by (simp add: crear_visita_tx_def tx_cases)
qed

lemma cerrar_c_dos: "fst (cerrar_visita_tx ''t1'' ''F1'' c_dos) = Inr ()"
proof -
  have "rowcount (\<lambda>v. folio v = ''F1'' \<and> v_estado v = ABIERTA) (visitas c_dos) = 1"
    by (simp add: rowcount_def c_dos_def v_f1_def)
  then show ?thesis by (simp add: cerrar_tx_ok)
qed

text \<open>
  Claim C9, as the code has it. From a state that is coherent in the sense above, both
  equalities of the conservation property hold, and every call of \<^verbatim>\<open>cerrar_visita_tx\<close>
  and every call of \<^verbatim>\<open>crear_visita_tx\<close> whose folio is new to the store, successful
  or failed, ends in a coherent state, where both equalities hold again.
\<close>

theorem conservacion_preserved:
  assumes "coherente c"
  shows "conservacion c \<and>
     coherente (snd (cerrar_visita_tx ahora f c)) \<and>
     conservacion (snd (cerrar_visita_tx ahora f c)) \<and>
     (fol \<notin> set (map folio (visitas c)) \<longrightarrow>
        coherente (snd (crear_visita_tx fol ahora p c)) \<and>
        conservacion (snd (crear_visita_tx fol ahora p c)))"
proof (intro conjI impI)
  show "conservacion c" using assms by (rule coherente_conservacion)
  show cc: "coherente (snd (cerrar_visita_tx ahora f c))"
    using assms by (rule cerrar_visita_tx_coherente)
  then show "conservacion (snd (cerrar_visita_tx ahora f c))"
    by (rule coherente_conservacion)
  assume "fol \<notin> set (map folio (visitas c))"
  with assms show co: "coherente (snd (crear_visita_tx fol ahora p c))"
    by (rule crear_visita_tx_coherente)
  then show "conservacion (snd (crear_visita_tx fol ahora p c))"
    by (rule coherente_conservacion)
qed

text \<open>
  A store with one open visit, a second doctor and a second bed: closing the visit and
  opening another one both succeed and keep the two equalities.
\<close>

theorem conservacion_preserved_witness:
  "coherente c_dos \<and> ''F2'' \<notin> set (map folio (visitas c_dos)) \<and>
   fst (cerrar_visita_tx ''t1'' ''F1'' c_dos) = Inr () \<and>
   fst (crear_visita_tx ''F2'' ''t1'' p_ok c_dos) =
     Inr \<lparr>r_folio = ''F2'', r_id_doctor = 2, r_id_cama = 2, r_id_sala = 1\<rparr> \<and>
   conservacion c_dos \<and>
   conservacion (snd (cerrar_visita_tx ''t1'' ''F1'' c_dos)) \<and>
   conservacion (snd (crear_visita_tx ''F2'' ''t1'' p_ok c_dos))"
proof -
  have fresh: "''F2'' \<notin> set (map folio (visitas c_dos))"
    by (simp add: c_dos_def v_f1_def)
  from conservacion_preserved [OF coherente_c_dos, of "''t1''" "''F1''" "''F2''" p_ok]
    coherente_c_dos fresh cerrar_c_dos crear_c_dos
  show ?thesis by simp
qed

text \<open>
  Claim C9 as stated fails: the two equalities alone are not kept. In this store one
  doctor is unavailable and one bed is occupied, and the one open visit names the
  other doctor and the other bed, so both equalities hold; the next visit gets the
  doctor and the bed of the first one, after which two doctors are unavailable and the
  open visits name one.
\<close>

theorem conservacion_counts_counterexample:
  "conservacion c_ce \<and> \<not> conservacion (snd (crear_visita_tx ''F2'' ''t1'' p_ok c_ce))"
proof -
  have a: "conservacion c_ce"
    by (simp add: conservacion_def rowcount_def abiertas_def c_ce_def v_f1_def)
  have sd: "seleccionar_doctor_disponible c_ce = Some 1"
    by (simp add: seleccionar_doctor_disponible_def fetchone_order_by_def c_ce_def)
  have sb: "seleccionar_cama_libre c_ce = Some (1, 1)"
    by (simp add: seleccionar_cama_libre_def fetchone_order_by_def c_ce_def)
  have oc: "ocupar_recursos 1 1 1 c_ce =
     (True, \<lparr>doctores = [\<lparr>id_doctor = 1, activo = True, disponible = False\<rparr>,
                         \<lparr>id_doctor = 2, activo = True, disponible = False\<rparr>],
             camas = [\<lparr>id_cama = 1, id_sala = 1, estado = OCUPADA\<rparr>,
                      \<lparr>id_cama = 2, id_sala = 1, estado = OCUPADA\<rparr>],
             visitas = [v_f1]\<rparr>)"
    by (simp add: ocupar_recursos_def Let_def rowcount_def update_where_def c_ce_def)
  have "crear_visita_body ''F2'' ''t1'' p_ok c_ce =
     (Inr \<lparr>r_folio = ''F2'', r_id_doctor = 1, r_id_cama = 1, r_id_sala = 1\<rparr>,
      \<lparr>doctores = [\<lparr>id_doctor = 1, activo = True, disponible = False\<rparr>,
                   \<lparr>id_doctor = 2, activo = True, disponible = False\<rparr>],
       camas = [\<lparr>id_cama = 1, id_sala = 1, estado = OCUPADA\<rparr>,
                \<lparr>id_cama = 2, id_sala = 1, estado = OCUPADA\<rparr>],
       visitas = [v_f1,
         \<lparr>folio = ''F2'', id_paciente = 1, v_id_doctor = 1, id_trabajador = 9,
          v_id_sala = 1, v_id_cama = 1, origen_solicitud = ''walk-in'', prioridad = 3,
          motivo = [], fecha_hora_inicio = ''t1'', fecha_hora_cierre = None,
          v_estado = ABIERTA\<rparr>]\<rparr>)"
    by (simp add: crear_visita_body_def sd sb oc fila_visita_def Let_def sqlite_integer_def p_ok_def)
  from crear_tx_ok [OF this]
  have b: "\<not> conservacion (snd (crear_visita_tx ''F2'' ''t1'' p_ok c_ce))"
    by (simp add: conservacion_def rowcount_def abiertas_def v_f1_def)
  from a b show ?thesis by simp
qed

end
